theory Spec2Isabelle
  imports Complex_Main
begin

section \<open>Numbers, vectors and quaternions\<close>

text \<open>
  The controller of \<^verbatim>\<open>src/Player.ts\<close> computes with JavaScript numbers. They are
  modelled as \<^typ>\<open>real\<close>: the rounding of IEEE doubles, infinities and NaN are not
  represented. The vector and quaternion operations below are the methods of the
  three.js classes \<^verbatim>\<open>Vector3\<close>, \<^verbatim>\<open>Matrix4\<close> and \<^verbatim>\<open>Quaternion\<close> that
  \<^verbatim>\<open>Player.update\<close> calls; they belong to the library, and each definition follows
  the library method of the same name.
\<close>

datatype Vector3 = Vector3 (v_x: real) (v_y: real) (v_z: real)

datatype Quaternion = Quaternion (q_x: real) (q_y: real) (q_z: real) (q_w: real)

definition Vector3_length :: "Vector3 \<Rightarrow> real" where
  "Vector3_length v = sqrt (v_x v * v_x v + v_y v * v_y v + v_z v * v_z v)"

definition Vector3_lengthSq :: "Vector3 \<Rightarrow> real" where
  "Vector3_lengthSq v = v_x v * v_x v + v_y v * v_y v + v_z v * v_z v"

definition Vector3_multiplyScalar :: "Vector3 \<Rightarrow> real \<Rightarrow> Vector3" where
  "Vector3_multiplyScalar v s = Vector3 (v_x v * s) (v_y v * s) (v_z v * s)"

definition Vector3_divideScalar :: "Vector3 \<Rightarrow> real \<Rightarrow> Vector3" where
  "Vector3_divideScalar v s = Vector3_multiplyScalar v (1 / s)"

text \<open>\<^verbatim>\<open>normalize()\<close> divides by \<^verbatim>\<open>length() || 1\<close>: a zero vector is divided by 1.\<close>

definition Vector3_normalize :: "Vector3 \<Rightarrow> Vector3" where
  "Vector3_normalize v =
     Vector3_divideScalar v (if Vector3_length v = 0 then 1 else Vector3_length v)"

definition Vector3_setLength :: "Vector3 \<Rightarrow> real \<Rightarrow> Vector3" where
  "Vector3_setLength v l = Vector3_multiplyScalar (Vector3_normalize v) l"

definition Vector3_subVectors :: "Vector3 \<Rightarrow> Vector3 \<Rightarrow> Vector3" where
  "Vector3_subVectors a b = Vector3 (v_x a - v_x b) (v_y a - v_y b) (v_z a - v_z b)"

definition Vector3_crossVectors :: "Vector3 \<Rightarrow> Vector3 \<Rightarrow> Vector3" where
  "Vector3_crossVectors a b =
     Vector3 (v_y a * v_z b - v_z a * v_y b)
             (v_z a * v_x b - v_x a * v_z b)
             (v_x a * v_y b - v_y a * v_x b)"

definition Vector3_lerp :: "Vector3 \<Rightarrow> Vector3 \<Rightarrow> real \<Rightarrow> Vector3" where
  "Vector3_lerp v t alpha =
     Vector3 (v_x v + (v_x t - v_x v) * alpha)
             (v_y v + (v_y t - v_y v) * alpha)
             (v_z v + (v_z t - v_z v) * alpha)"

definition Vector3_distanceTo :: "Vector3 \<Rightarrow> Vector3 \<Rightarrow> real" where
  "Vector3_distanceTo a b = sqrt (Vector3_lengthSq (Vector3_subVectors a b))"

text \<open>\<^verbatim>\<open>Quaternion.setFromEuler\<close> for the default order XYZ.\<close>

definition Quaternion_setFromEuler :: "real \<Rightarrow> real \<Rightarrow> real \<Rightarrow> Quaternion" where
  "Quaternion_setFromEuler ex ey ez =
     (let c1 = cos (ex / 2); c2 = cos (ey / 2); c3 = cos (ez / 2);
          s1 = sin (ex / 2); s2 = sin (ey / 2); s3 = sin (ez / 2)
      in Quaternion (s1 * c2 * c3 + c1 * s2 * s3)
                    (c1 * s2 * c3 - s1 * c2 * s3)
                    (c1 * c2 * s3 + s1 * s2 * c3)
                    (c1 * c2 * c3 - s1 * s2 * s3))"

definition Vector3_applyQuaternion :: "Vector3 \<Rightarrow> Quaternion \<Rightarrow> Vector3" where
  "Vector3_applyQuaternion v q =
     (let tx = 2 * (q_y q * v_z v - q_z q * v_y v);
          ty = 2 * (q_z q * v_x v - q_x q * v_z v);
          tz = 2 * (q_x q * v_y v - q_y q * v_x v)
      in Vector3 (v_x v + q_w q * tx + q_y q * tz - q_z q * ty)
                 (v_y v + q_w q * ty + q_z q * tx - q_x q * tz)
                 (v_z v + q_w q * tz + q_x q * ty - q_y q * tx))"

text \<open>
  \<^verbatim>\<open>Matrix4.lookAt\<close> writes the three basis vectors into the upper 3x3 block of the
  matrix, and \<^verbatim>\<open>Quaternion.setFromRotationMatrix\<close> reads only that block, so the
  rotation matrix is kept as its three columns.
\<close>

datatype Matrix4 = Matrix4 (col_x: Vector3) (col_y: Vector3) (col_z: Vector3)

definition Matrix4_lookAt :: "Vector3 \<Rightarrow> Vector3 \<Rightarrow> Vector3 \<Rightarrow> Matrix4" where
  "Matrix4_lookAt eye target upv =
     (let z0 = Vector3_subVectors eye target;
          z1 = (if Vector3_lengthSq z0 = 0 then Vector3 (v_x z0) (v_y z0) 1 else z0);
          z2 = Vector3_normalize z1;
          x0 = Vector3_crossVectors upv z2;
          z3 = (if Vector3_lengthSq x0 = 0
                then Vector3_normalize
                       (if \<bar>v_z upv\<bar> = 1 then Vector3 (v_x z2 + 0.0001) (v_y z2) (v_z z2)
                        else Vector3 (v_x z2) (v_y z2) (v_z z2 + 0.0001))
                else z2);
          x1 = (if Vector3_lengthSq x0 = 0 then Vector3_crossVectors upv z3 else x0);
          x2 = Vector3_normalize x1;
          y2 = Vector3_crossVectors z3 x2
      in Matrix4 x2 y2 z3)"

definition Quaternion_setFromRotationMatrix :: "Matrix4 \<Rightarrow> Quaternion" where
  "Quaternion_setFromRotationMatrix m =
     (let m11 = v_x (col_x m); m12 = v_x (col_y m); m13 = v_x (col_z m);
          m21 = v_y (col_x m); m22 = v_y (col_y m); m23 = v_y (col_z m);
          m31 = v_z (col_x m); m32 = v_z (col_y m); m33 = v_z (col_z m);
          trace = m11 + m22 + m33
      in if trace > 0 then
           (let s = 0.5 / sqrt (trace + 1)
            in Quaternion ((m32 - m23) * s) ((m13 - m31) * s) ((m21 - m12) * s) (0.25 / s))
         else if m11 > m22 \<and> m11 > m33 then
           (let s = 2 * sqrt (1 + m11 - m22 - m33)
            in Quaternion (0.25 * s) ((m12 + m21) / s) ((m13 + m31) / s) ((m32 - m23) / s))
         else if m22 > m33 then
           (let s = 2 * sqrt (1 + m22 - m11 - m33)
            in Quaternion ((m12 + m21) / s) (0.25 * s) ((m23 + m32) / s) ((m13 - m31) / s))
         else
           (let s = 2 * sqrt (1 + m33 - m11 - m22)
            in Quaternion ((m13 + m31) / s) ((m23 + m32) / s) (0.25 * s) ((m21 - m12) / s)))"

definition Quaternion_equals :: "Quaternion \<Rightarrow> Quaternion \<Rightarrow> bool" where
  "Quaternion_equals a b \<longleftrightarrow>
     q_x b = q_x a \<and> q_y b = q_y a \<and> q_z b = q_z a \<and> q_w b = q_w a"

definition Quaternion_dot :: "Quaternion \<Rightarrow> Quaternion \<Rightarrow> real" where
  "Quaternion_dot a b = q_x a * q_x b + q_y a * q_y b + q_z a * q_z b + q_w a * q_w b"

definition Quaternion_length :: "Quaternion \<Rightarrow> real" where
  "Quaternion_length q = sqrt (q_x q * q_x q + q_y q * q_y q + q_z q * q_z q + q_w q * q_w q)"

text \<open>\<^verbatim>\<open>Quaternion.normalize\<close>: a quaternion of length 0 becomes the identity.\<close>

definition Quaternion_normalize :: "Quaternion \<Rightarrow> Quaternion" where
  "Quaternion_normalize q =
     (let l = Quaternion_length q
      in if l = 0 then Quaternion 0 0 0 1
         else Quaternion (q_x q * (1 / l)) (q_y q * (1 / l)) (q_z q * (1 / l)) (q_w q * (1 / l)))"

definition clamp :: "real \<Rightarrow> real \<Rightarrow> real \<Rightarrow> real" where
  "clamp v lo hi = max lo (min hi v)"

definition Quaternion_angleTo :: "Quaternion \<Rightarrow> Quaternion \<Rightarrow> real" where
  "Quaternion_angleTo a b = 2 * arccos \<bar>clamp (Quaternion_dot a b) (- 1) 1\<bar>"

text \<open>\<^verbatim>\<open>Math.atan2(y, x)\<close>, and \<^verbatim>\<open>Number.EPSILON\<close>, the constant \<open>2\<^sup>-\<^sup>5\<^sup>2\<close>.\<close>

definition atan2 :: "real \<Rightarrow> real \<Rightarrow> real" where
  "atan2 y x =
     (if x > 0 then arctan (y / x)
      else if x < 0 then (if y \<ge> 0 then arctan (y / x) + pi else arctan (y / x) - pi)
      else if y > 0 then pi / 2
      else if y < 0 then - (pi / 2)
      else 0)"

definition EPSILON :: real where
  "EPSILON = 1 / 2 ^ 52"

definition Quaternion_slerp :: "Quaternion \<Rightarrow> Quaternion \<Rightarrow> real \<Rightarrow> Quaternion" where
  "Quaternion_slerp a qb t =
     (if t = 0 then a
      else if t = 1 then qb
      else
        (let c0 = Quaternion_dot a qb;
             b = (if c0 < 0 then Quaternion (- q_x qb) (- q_y qb) (- q_z qb) (- q_w qb) else qb);
             cosHalfTheta = (if c0 < 0 then - c0 else c0)
         in if cosHalfTheta \<ge> 1 then a
            else
              (let sqrSinHalfTheta = 1 - cosHalfTheta * cosHalfTheta
               in if sqrSinHalfTheta \<le> EPSILON then
                    (let s = 1 - t
                     in Quaternion_normalize
                          (Quaternion (s * q_x a + t * q_x b) (s * q_y a + t * q_y b)
                                      (s * q_z a + t * q_z b) (s * q_w a + t * q_w b)))
                  else
                    (let sinHalfTheta = sqrt sqrSinHalfTheta;
                         halfTheta = atan2 sinHalfTheta cosHalfTheta;
                         ratioA = sin ((1 - t) * halfTheta) / sinHalfTheta;
                         ratioB = sin (t * halfTheta) / sinHalfTheta
                     in Quaternion (q_x a * ratioA + q_x b * ratioB)
                                   (q_y a * ratioA + q_y b * ratioB)
                                   (q_z a * ratioA + q_z b * ratioB)
                                   (q_w a * ratioA + q_w b * ratioB)))))"

definition Quaternion_rotateTowards :: "Quaternion \<Rightarrow> Quaternion \<Rightarrow> real \<Rightarrow> Quaternion" where
  "Quaternion_rotateTowards a q step =
     (let angle = Quaternion_angleTo a q
      in if angle = 0 then a
         else Quaternion_slerp a q (min 1 (step / angle)))"


section \<open>The physics body and its collider\<close>

text \<open>
  The rigid body and its colliders live in the rapier physics world. The body is
  modelled by the fields the controller reads and writes, and the colliders attached to
  it by the list of their descriptions, in order of attachment: \<^verbatim>\<open>body.collider(0)\<close>
  is the head of the list, \<^verbatim>\<open>world.createCollider\<close> appends. The field
  \<open>bodyMass\<close> is the mass the world holds for the body: a collider that is created
  adds its mass at once, a collider that is removed keeps counting until the world
  steps, and a step makes the mass the sum of the masses of the colliders attached.
\<close>

record ColliderDesc =
  capsuleHeight :: real
  capsuleRadius :: real
  capsuleTranslation :: Vector3
  mass :: real
  friction :: real
  activeEvents :: bool

record RigidBody =
  translation :: Vector3
  linvel :: Vector3
  linearDamping :: real
  colliders :: "ColliderDesc list"
  bodyMass :: real

definition ColliderDesc_capsule :: "real \<Rightarrow> Vector3 \<Rightarrow> real \<Rightarrow> ColliderDesc" where
  "ColliderDesc_capsule h t m =
     \<lparr>capsuleHeight = h, capsuleRadius = 0.15, capsuleTranslation = t,
      mass = m, friction = 0, activeEvents = True\<rparr>"

text \<open>
  \<^verbatim>\<open>world.removeCollider\<close> of the collider \<^verbatim>\<open>body.collider(0)\<close>, which fails when
  the body has none, and \<^verbatim>\<open>world.createCollider\<close>.
\<close>

definition removeCollider :: "RigidBody \<Rightarrow> RigidBody option" where
  "removeCollider b =
     (case colliders b of [] \<Rightarrow> None | c # cs \<Rightarrow> Some (b\<lparr>colliders := cs\<rparr>))"

definition createCollider :: "ColliderDesc \<Rightarrow> RigidBody \<Rightarrow> RigidBody" where
  "createCollider shape b =
     b\<lparr>colliders := colliders b @ [shape], bodyMass := bodyMass b + mass shape\<rparr>"

text \<open>
  \<^verbatim>\<open>world.step()\<close> as the controller sees it: the world moves the body to a new
  translation with a new velocity, and brings the mass of the body up to date.
\<close>

definition world_step :: "Vector3 \<Rightarrow> Vector3 \<Rightarrow> RigidBody \<Rightarrow> RigidBody" where
  "world_step t v b = b\<lparr>translation := t, linvel := v, bodyMass := sum_list (map mass (colliders b))\<rparr>"

text \<open>
  \<^verbatim>\<open>body.applyImpulse\<close> adds the impulse, divided by the mass of the body, to the linear
  velocity; the translation changes only when the world steps. A body without mass
  does not move.
\<close>

definition applyImpulse :: "Vector3 \<Rightarrow> RigidBody \<Rightarrow> RigidBody" where
  "applyImpulse i b =
     (let inv = (if bodyMass b = 0 then 0 else 1 / bodyMass b)
      in b\<lparr>linvel := Vector3 (v_x (linvel b) + v_x i * inv)
                             (v_y (linvel b) + v_y i * inv)
                             (v_z (linvel b) + v_z i * inv)\<rparr>)"

section \<open>The state of the controller\<close>

text \<open>
  The avatar is the \<^verbatim>\<open>model\<close> of the animation controller: the fields of the
  \<^verbatim>\<open>Object3D\<close> that \<^verbatim>\<open>update\<close> reads and writes.
\<close>

record Avatar =
  position :: Vector3
  quaternion :: Quaternion
  up :: Vector3

text \<open>
  Modelled from the spec: the class \<^verbatim>\<open>AnimationController\<close> is not part of the
  sources. It owns the avatar transform, absent until the asynchronous loading has
  finished, and has an entry point that advances the animation by \<open>delta\<close>; the model
  records the deltas it was advanced by.
\<close>

record AnimationController =
  model :: "Avatar option"
  advanced :: "real list"

text \<open>
  The fields of \<^verbatim>\<open>Player\<close> that carry state from one call to the next. The scratch
  objects \<^verbatim>\<open>vector\<close>, \<^verbatim>\<open>euler\<close>, \<^verbatim>\<open>quaternion\<close> and \<^verbatim>\<open>rotationMatrix\<close> are
  overwritten before every use and appear as local values of \<open>update\<close>;
  \<open>followTarget\<close> is the position of the follow target, \<open>pivot\<close> the position of
  \<^verbatim>\<open>followCam.pivot\<close>, and \<open>uiResets\<close> counts the calls of \<^verbatim>\<open>ui.reset()\<close>.
  The last two fields are the timer queue of the JavaScript runtime: \<open>now\<close> is
  the clock in milliseconds and \<open>timers\<close> holds the due time of each pending
  \<^verbatim>\<open>setTimeout\<close> callback of \<^verbatim>\<open>setGrounded\<close>.
\<close>

record Player =
  body :: RigidBody
  animationController :: "AnimationController option"
  inputVelocity :: Vector3
  followTarget :: Vector3
  grounded :: bool
  targetQuaternion :: Quaternion
  pivot :: Vector3
  wait :: bool
  accelerationFactor :: real
  uiResets :: nat
  now :: nat
  timers :: "nat list"

definition originalCapsuleHeight :: real where
  "originalCapsuleHeight = 0.5"

definition jumpCapsuleHeight :: real where
  "jumpCapsuleHeight = 0.25"

definition originalCapsuleTranslation :: Vector3 where
  "originalCapsuleTranslation = Vector3 0 0.645 0"

definition jumpCapsuleTranslation :: Vector3 where
  "jumpCapsuleTranslation = Vector3 0 0.8 0"

text \<open>
  A call either returns or throws, and a call that throws keeps the assignments it has
  made before. \<open>TypeError\<close> is a read of a property of \<^verbatim>\<open>undefined\<close>;
  \<open>EngineError\<close> is the physics world asked to remove a collider that the body does
  not have.
\<close>

datatype error = TypeError | EngineError

datatype result = Done Player | Threw error Player

fun state_of :: "result \<Rightarrow> Player" where
  "state_of (Done p) = p"
| "state_of (Threw e p) = p"

fun returns :: "result \<Rightarrow> bool" where
  "returns (Done p) = True"
| "returns (Threw e p) = False"

fun and_then :: "result \<Rightarrow> (Player \<Rightarrow> result) \<Rightarrow> result" where
  "and_then (Done p) f = f p"
| "and_then (Threw e p) f = Threw e p"

section \<open>Construction\<close>

text \<open>
  The field initialisers of the class and the constructor, lines 14 to 52: the body is
  created at \<open>position\<close> with the standing capsule of mass 1 attached and no
  damping. The follow target is a new \<^verbatim>\<open>Object3D\<close>, at the origin; the pivot of the
  camera rig, which the class \<^verbatim>\<open>FollowCam\<close> owns, is taken to start there too. The
  clock starts at 0.
\<close>

definition constructor :: "Vector3 \<Rightarrow> Player" where
  "constructor pos =
     \<lparr>body = \<lparr>translation = pos, linvel = Vector3 0 0 0, linearDamping = 0,
              colliders = [ColliderDesc_capsule originalCapsuleHeight originalCapsuleTranslation 1],
              bodyMass = 1\<rparr>,
      animationController = None,
      inputVelocity = Vector3 0 0 0,
      followTarget = Vector3 0 0 0,
      grounded = False,
      targetQuaternion = Quaternion 0 0 0 1,
      pivot = Vector3 0 0 0,
      wait = False,
      accelerationFactor = 1,
      uiResets = 0,
      now = 0,
      timers = []\<rparr>"

text \<open>
  \<^verbatim>\<open>init()\<close>, lines 54 to 57, runs in two steps. Line 55 creates the animation
  controller, which has no avatar yet; the call then waits at line 56, and frames may
  be updated meanwhile.
\<close>

definition init_start :: "Player \<Rightarrow> Player" where
  "init_start p = p\<lparr>animationController := Some \<lparr>model = None, advanced = []\<rparr>\<rparr>"

text \<open>
  Modelled from the spec: the \<^verbatim>\<open>init()\<close> of the class \<^verbatim>\<open>AnimationController\<close>, which
  is not part of the sources. When it has finished, the avatar of the controller is an
  \<^verbatim>\<open>Object3D\<close> at the origin with the identity orientation and the up vector
  (0, 1, 0).
\<close>

definition init_ready :: "Player \<Rightarrow> Player" where
  "init_ready p =
     (case animationController p of
        None \<Rightarrow> p
      | Some ac \<Rightarrow>
          p\<lparr>animationController :=
              Some (ac\<lparr>model := Some \<lparr>position = Vector3 0 0 0, quaternion = Quaternion 0 0 0 1,
                                        up = Vector3 0 1 0\<rparr>\<rparr>)\<rparr>)"

section \<open>The grounded state machine\<close>

text \<open>
  \<^verbatim>\<open>updateCapsuleHeight\<close>, lines 76 to 80: the collider \<^verbatim>\<open>body.collider(0)\<close> is
  removed and a capsule of mass 0.5 is attached.
\<close>

definition updateCapsuleHeight :: "real \<Rightarrow> Vector3 \<Rightarrow> Player \<Rightarrow> result" where
  "updateCapsuleHeight h t p =
     (let shape = ColliderDesc_capsule h t 0.5
      in case removeCollider (body p) of
           None \<Rightarrow> Threw EngineError p
         | Some b \<Rightarrow> Done (p\<lparr>body := createCollider shape b\<rparr>))"

text \<open>
  \<^verbatim>\<open>setGrounded\<close>, lines 59 to 74. The callback given to \<^verbatim>\<open>setTimeout\<close> is entered
  in the timer queue with the due time \<open>now + 250\<close>.
\<close>

definition setGrounded :: "bool \<Rightarrow> Player \<Rightarrow> result" where
  "setGrounded g p =
     (if g \<noteq> grounded p then
        (let p1 = p\<lparr>grounded := g\<rparr>
         in if g then
              (let p2 = p1\<lparr>body := (body p1)\<lparr>linearDamping := 4\<rparr>\<rparr>;
                   p3 = p2\<lparr>timers := timers p2 @ [now p2 + 250]\<rparr>
               in updateCapsuleHeight originalCapsuleHeight originalCapsuleTranslation p3)
            else Done (p1\<lparr>body := (body p1)\<lparr>linearDamping := 0.1\<rparr>\<rparr>))
      else Done p)"

text \<open>
  The runtime: \<open>elapse d\<close> lets \<open>d\<close> milliseconds pass. Every pending callback whose
  due time has been reached runs, and each of them assigns \<^verbatim>\<open>this.wait = false\<close>
  (line 66).
\<close>

definition elapse :: "nat \<Rightarrow> Player \<Rightarrow> Player" where
  "elapse d p =
     (let t = now p + d;
          due = filter (\<lambda>x. x \<le> t) (timers p)
      in p\<lparr>now := t,
           timers := filter (\<lambda>x. \<not> x \<le> t) (timers p),
           wait := (if due = [] then wait p else False)\<rparr>)"

text \<open>\<^verbatim>\<open>reset\<close>, lines 82 to 86.\<close>

definition reset :: "Player \<Rightarrow> Player" where
  "reset p =
     p\<lparr>body := (body p)\<lparr>linvel := Vector3 0 0 0, translation := Vector3 0 1 0\<rparr>,
       uiResets := uiResets p + 1\<rparr>"


section \<open>The frame update\<close>

text \<open>
  The keyboard and the camera rig are collaborators: a call of \<open>update\<close> gets the
  snapshot \<open>keyMap\<close> of the keys held (a key that is absent from the map reads as
  not held) and the yaw angle \<open>yaw\<close> of the camera. The body of \<^verbatim>\<open>update\<close> is cut
  into its consecutive parts, each named after what it does.

  Lines 89 to 107: the local direction vector and the speed limit, from the four
  directional keys in the order of the source.
\<close>

definition update_direction :: "(string \<Rightarrow> bool) \<Rightarrow> Vector3 \<times> real" where
  "update_direction keyMap =
     (let v0 = Vector3 0 0 0;
          l0 = 1;
          v1 = (if keyMap ''KeyW'' then Vector3 (v_x v0) (v_y v0) (- 1) else v0);
          l1 = (if keyMap ''KeyW'' then 9.5 else l0);
          v2 = (if keyMap ''KeyS'' then Vector3 (v_x v1) (v_y v1) 1 else v1);
          l2 = (if keyMap ''KeyS'' then 9.5 else l1);
          v3 = (if keyMap ''KeyA'' then Vector3 (- 1) (v_y v2) (v_z v2) else v2);
          l3 = (if keyMap ''KeyA'' then 9.5 else l2);
          v4 = (if keyMap ''KeyD'' then Vector3 1 (v_y v3) (v_z v3) else v3);
          l4 = (if keyMap ''KeyD'' then 9.5 else l3)
      in (v4, l4))"

text \<open>Lines 109 to 116: the new acceleration factor while grounded.\<close>

definition update_acceleration :: "real \<Rightarrow> Vector3 \<Rightarrow> real \<Rightarrow> real" where
  "update_acceleration delta v af =
     (if Vector3_length v > 0 then
        (let a = af + delta * 0.1 in if a > 2 then 2 else a)
      else 1)"

text \<open>Lines 89 to 126: the impulse in the frame of the player, and the jump.\<close>

definition update_movement :: "real \<Rightarrow> (string \<Rightarrow> bool) \<Rightarrow> Player \<Rightarrow> result" where
  "update_movement delta keyMap p =
     (let p0 = p\<lparr>inputVelocity := Vector3 0 0 0\<rparr>
      in if grounded p0 then
           (let (v, limit) = update_direction keyMap;
                p1 = p0\<lparr>accelerationFactor := update_acceleration delta v (accelerationFactor p0)\<rparr>;
                p2 = p1\<lparr>inputVelocity := Vector3_setLength v (delta * limit * accelerationFactor p1)\<rparr>
            in if \<not> wait p2 \<and> keyMap ''Space'' then
                 (let p3 = p2\<lparr>wait := True\<rparr>;
                      p4 = p3\<lparr>inputVelocity :=
                                Vector3 (v_x (inputVelocity p3)) 5 (v_z (inputVelocity p3))\<rparr>
                  in updateCapsuleHeight jumpCapsuleHeight jumpCapsuleTranslation p4)
               else Done p2)
         else Done p0)"

text \<open>Lines 129 to 134: the impulse is turned by the yaw of the camera and applied.\<close>

definition update_impulse :: "real \<Rightarrow> Player \<Rightarrow> Player" where
  "update_impulse yaw p =
     (let q = Quaternion_setFromEuler 0 yaw 0;
          p1 = p\<lparr>inputVelocity := Vector3_applyQuaternion (inputVelocity p) q\<rparr>
      in p1\<lparr>body := applyImpulse (inputVelocity p1) (body p1)\<rparr>)"

text \<open>Lines 137 to 139: the recovery when the body has fallen out of bounds.\<close>

definition update_bounds :: "Player \<Rightarrow> Player" where
  "update_bounds p = (if v_y (translation (body p)) < - 3 then reset p else p)"

definition avatar :: "Player \<Rightarrow> Avatar option" where
  "avatar p = (case animationController p of None \<Rightarrow> None | Some ac \<Rightarrow> model ac)"

definition set_avatar :: "Avatar \<Rightarrow> Player \<Rightarrow> Player" where
  "set_avatar m p =
     (case animationController p of
        None \<Rightarrow> p
      | Some ac \<Rightarrow> p\<lparr>animationController := Some (ac\<lparr>model := Some m\<rparr>)\<rparr>)"

text \<open>
  Lines 142 to 147. The follow target is a child of the scene itself, which is not
  transformed, so its world position is its position. The avatar is moved only when
  it is there (\<^verbatim>\<open>animationController?.model?\<close>).
\<close>

definition update_follow :: "real \<Rightarrow> Player \<Rightarrow> Player" where
  "update_follow delta p =
     (let p1 = p\<lparr>followTarget := translation (body p)\<rparr>;
          vector = followTarget p1;
          p2 = p1\<lparr>pivot := Vector3_lerp (pivot p1) vector (delta * 10)\<rparr>
      in case avatar p2 of
           None \<Rightarrow> p2
         | Some m \<Rightarrow> set_avatar (m\<lparr>position := Vector3_lerp (position m) vector (delta * 20)\<rparr>) p2)"

text \<open>
  Lines 151 to 163. Without an avatar the arguments \<^verbatim>\<open>target\<close> and \<^verbatim>\<open>up\<close> of
  \<^verbatim>\<open>lookAt\<close> are \<^verbatim>\<open>undefined\<close>, and \<^verbatim>\<open>lookAt\<close> throws when it reads their
  components.
\<close>

definition update_orientation :: "real \<Rightarrow> Player \<Rightarrow> result" where
  "update_orientation delta p =
     (case avatar p of
        None \<Rightarrow> Threw TypeError p
      | Some m \<Rightarrow>
          (let rotationMatrix = Matrix4_lookAt (followTarget p) (position m) (up m);
               p1 = p\<lparr>targetQuaternion := Quaternion_setFromRotationMatrix rotationMatrix\<rparr>;
               distance = Vector3_distanceTo (position m) (followTarget p1)
           in if distance > 0.0001 \<and> \<not> Quaternion_equals (quaternion m) (targetQuaternion p1) then
                (let t0 = targetQuaternion p1;
                     t1 = Quaternion (q_x t0) (q_y t0) 0 (q_w t0);
                     t2 = Quaternion 0 (q_y t1) (q_z t1) (q_w t1);
                     p2 = p1\<lparr>targetQuaternion := Quaternion_normalize t2\<rparr>
                 in Done (set_avatar
                            (m\<lparr>quaternion :=
                                 Quaternion_rotateTowards (quaternion m) (targetQuaternion p2) (delta * 20)\<rparr>)
                            p2))
              else Done p1))"

text \<open>
  Modelled from the spec: \<^verbatim>\<open>AnimationController.update\<close>, which is not part of the
  sources, advances the animation by \<open>delta\<close> and leaves the transform of the avatar
  as it is. Line 166 calls it when there is a controller.
\<close>

definition update_animation :: "real \<Rightarrow> Player \<Rightarrow> Player" where
  "update_animation delta p =
     (case animationController p of
        None \<Rightarrow> p
      | Some ac \<Rightarrow> p\<lparr>animationController := Some (ac\<lparr>advanced := advanced ac @ [delta]\<rparr>)\<rparr>)"

text \<open>\<^verbatim>\<open>update\<close>, lines 88 to 167.\<close>

definition update :: "real \<Rightarrow> (string \<Rightarrow> bool) \<Rightarrow> real \<Rightarrow> Player \<Rightarrow> result" where
  "update delta keyMap yaw p =
     and_then (update_movement delta keyMap p) (\<lambda>p1.
       and_then (update_orientation delta (update_follow delta (update_bounds (update_impulse yaw p1))))
         (\<lambda>p2. Done (update_animation delta p2)))"

section \<open>Traces\<close>

text \<open>
  What can happen to a controller after its construction: \<^verbatim>\<open>init()\<close> starts, the
  avatar becomes ready, the contact collaborator reports a change of ground contact, a
  frame is updated, time passes, the physics world steps and moves the body, and a
  caller forces a capsule geometry through \<^verbatim>\<open>updateCapsuleHeight\<close>. A call that
  throws leaves the state it has reached.
\<close>

datatype event =
    InitStart
  | InitReady
  | SetGrounded bool
  | Update real "string \<Rightarrow> bool" real
  | Elapse nat
  | Step Vector3 Vector3
  | UpdateCapsuleHeight real Vector3

fun exec :: "event \<Rightarrow> Player \<Rightarrow> Player" where
  "exec InitStart p = init_start p"
| "exec InitReady p = init_ready p"
| "exec (SetGrounded g) p = state_of (setGrounded g p)"
| "exec (Update delta keyMap yaw) p = state_of (update delta keyMap yaw p)"
| "exec (Elapse d) p = elapse d p"
| "exec (Step t v) p = p\<lparr>body := world_step t v (body p)\<rparr>"
| "exec (UpdateCapsuleHeight h t) p = state_of (updateCapsuleHeight h t p)"

fun run :: "event list \<Rightarrow> Player \<Rightarrow> Player" where
  "run [] p = p"
| "run (e # es) p = run es (exec e p)"

text \<open>The key maps used in examples: the keys of the list are held, all others are not.\<close>

definition held :: "string list \<Rightarrow> string \<Rightarrow> bool" where
  "held ks k = (k \<in> set ks)"


text \<open>A frame never has a negative duration: the deltas of a trace are not negative.\<close>

fun nonneg_delta :: "event \<Rightarrow> bool" where
  "nonneg_delta (Update delta keyMap yaw) = (0 \<le> delta)"
| "nonneg_delta e = True"

text \<open>Some directional key is held.\<close>

definition directional :: "(string \<Rightarrow> bool) \<Rightarrow> bool" where
  "directional keyMap \<longleftrightarrow>
     keyMap ''KeyW'' \<or> keyMap ''KeyS'' \<or> keyMap ''KeyA'' \<or> keyMap ''KeyD''"

text \<open>The condition of lines 91 and 120 under which a call of \<open>update\<close> jumps.\<close>

definition jumps :: "(string \<Rightarrow> bool) \<Rightarrow> Player \<Rightarrow> bool" where
  "jumps keyMap p \<longleftrightarrow> grounded p \<and> \<not> wait p \<and> keyMap ''Space''"



section \<open>What each part of a call changes\<close>

lemma state_of_and_then:
  "state_of (and_then r f) = (case r of Done p \<Rightarrow> state_of (f p) | Threw e p \<Rightarrow> p)"
  by (cases r) simp_all

lemma world_step_fields [simp]:
  "translation (world_step t v b) = t"
  "linvel (world_step t v b) = v"
  "linearDamping (world_step t v b) = linearDamping b"
  "colliders (world_step t v b) = colliders b"
  by (simp_all add: world_step_def)

lemma init_fields:
  "grounded (init_start p) = grounded p"
  "wait (init_start p) = wait p"
  "timers (init_start p) = timers p"
  "now (init_start p) = now p"
  "accelerationFactor (init_start p) = accelerationFactor p"
  "uiResets (init_start p) = uiResets p"
  "body (init_start p) = body p"
  "grounded (init_ready p) = grounded p"
  "wait (init_ready p) = wait p"
  "timers (init_ready p) = timers p"
  "now (init_ready p) = now p"
  "accelerationFactor (init_ready p) = accelerationFactor p"
  "uiResets (init_ready p) = uiResets p"
  "body (init_ready p) = body p"
  by (simp_all add: init_start_def init_ready_def split: option.splits)


lemma updateCapsuleHeight_fields:
  "accelerationFactor (state_of (updateCapsuleHeight h t p)) = accelerationFactor p"
  "grounded (state_of (updateCapsuleHeight h t p)) = grounded p"
  "wait (state_of (updateCapsuleHeight h t p)) = wait p"
  "inputVelocity (state_of (updateCapsuleHeight h t p)) = inputVelocity p"
  "timers (state_of (updateCapsuleHeight h t p)) = timers p"
  "now (state_of (updateCapsuleHeight h t p)) = now p"
  "uiResets (state_of (updateCapsuleHeight h t p)) = uiResets p"
  "followTarget (state_of (updateCapsuleHeight h t p)) = followTarget p"
  "pivot (state_of (updateCapsuleHeight h t p)) = pivot p"
  "animationController (state_of (updateCapsuleHeight h t p)) = animationController p"
  "translation (body (state_of (updateCapsuleHeight h t p))) = translation (body p)"
  "linvel (body (state_of (updateCapsuleHeight h t p))) = linvel (body p)"
  "linearDamping (body (state_of (updateCapsuleHeight h t p))) = linearDamping (body p)"
  by (simp_all add: updateCapsuleHeight_def removeCollider_def createCollider_def split: list.splits)

lemma updateCapsuleHeight_colliders:
  "colliders (body (state_of (updateCapsuleHeight h t p))) =
     (case colliders (body p) of [] \<Rightarrow> [] | c # cs \<Rightarrow> cs @ [ColliderDesc_capsule h t 0.5])"
  by (simp add: updateCapsuleHeight_def removeCollider_def createCollider_def split: list.splits)

lemma updateCapsuleHeight_returns:
  "returns (updateCapsuleHeight h t p) = (colliders (body p) \<noteq> [])"
  by (simp add: updateCapsuleHeight_def removeCollider_def createCollider_def split: list.splits)

lemma avatar_updateCapsuleHeight:
  "avatar (state_of (updateCapsuleHeight h t p)) = avatar p"
  by (simp add: avatar_def updateCapsuleHeight_fields)

lemma movement_fields:
  "grounded (state_of (update_movement delta keyMap p)) = grounded p"
  "timers (state_of (update_movement delta keyMap p)) = timers p"
  "now (state_of (update_movement delta keyMap p)) = now p"
  "uiResets (state_of (update_movement delta keyMap p)) = uiResets p"
  "followTarget (state_of (update_movement delta keyMap p)) = followTarget p"
  "pivot (state_of (update_movement delta keyMap p)) = pivot p"
  "animationController (state_of (update_movement delta keyMap p)) = animationController p"
  "translation (body (state_of (update_movement delta keyMap p))) = translation (body p)"
  "linvel (body (state_of (update_movement delta keyMap p))) = linvel (body p)"
  by (simp_all add: update_movement_def Let_def updateCapsuleHeight_fields split: prod.splits)

lemma movement_wait:
  "wait (state_of (update_movement delta keyMap p)) = (wait p \<or> grounded p \<and> keyMap ''Space'')"
  by (auto simp add: update_movement_def Let_def updateCapsuleHeight_fields split: prod.splits)

lemma movement_accel:
  "accelerationFactor (state_of (update_movement delta keyMap p)) =
     (if grounded p then update_acceleration delta (fst (update_direction keyMap)) (accelerationFactor p)
      else accelerationFactor p)"
  by (simp add: update_movement_def Let_def updateCapsuleHeight_fields split: prod.splits)

lemma movement_inputVelocity:
  "inputVelocity (state_of (update_movement delta keyMap p)) =
     (if grounded p then
        (let v = Vector3_setLength (fst (update_direction keyMap))
                   (delta * snd (update_direction keyMap) *
                    update_acceleration delta (fst (update_direction keyMap)) (accelerationFactor p))
         in if \<not> wait p \<and> keyMap ''Space'' then Vector3 (v_x v) 5 (v_z v) else v)
      else Vector3 0 0 0)"
  by (simp add: update_movement_def Let_def updateCapsuleHeight_fields split: prod.splits)

lemma movement_colliders:
  "colliders (body (state_of (update_movement delta keyMap p))) =
     (if grounded p \<and> \<not> wait p \<and> keyMap ''Space'' then
        (case colliders (body p) of [] \<Rightarrow> []
         | c # cs \<Rightarrow> cs @ [ColliderDesc_capsule jumpCapsuleHeight jumpCapsuleTranslation 0.5])
      else colliders (body p))"
  by (simp add: update_movement_def Let_def updateCapsuleHeight_colliders split: prod.splits)

lemma movement_returns:
  "returns (update_movement delta keyMap p) =
     (grounded p \<and> \<not> wait p \<and> keyMap ''Space'' \<longrightarrow> colliders (body p) \<noteq> [])"
  by (simp add: update_movement_def Let_def updateCapsuleHeight_returns split: prod.splits)


lemma impulse_fields:
  "grounded (update_impulse yaw p) = grounded p"
  "wait (update_impulse yaw p) = wait p"
  "timers (update_impulse yaw p) = timers p"
  "now (update_impulse yaw p) = now p"
  "accelerationFactor (update_impulse yaw p) = accelerationFactor p"
  "uiResets (update_impulse yaw p) = uiResets p"
  "followTarget (update_impulse yaw p) = followTarget p"
  "pivot (update_impulse yaw p) = pivot p"
  "animationController (update_impulse yaw p) = animationController p"
  "translation (body (update_impulse yaw p)) = translation (body p)"
  "colliders (body (update_impulse yaw p)) = colliders (body p)"
  "inputVelocity (update_impulse yaw p) =
     Vector3_applyQuaternion (inputVelocity p) (Quaternion_setFromEuler 0 yaw 0)"
  by (simp_all add: update_impulse_def applyImpulse_def Let_def)

lemma bounds_fields:
  "grounded (update_bounds p) = grounded p"
  "wait (update_bounds p) = wait p"
  "timers (update_bounds p) = timers p"
  "now (update_bounds p) = now p"
  "accelerationFactor (update_bounds p) = accelerationFactor p"
  "followTarget (update_bounds p) = followTarget p"
  "pivot (update_bounds p) = pivot p"
  "animationController (update_bounds p) = animationController p"
  "colliders (body (update_bounds p)) = colliders (body p)"
  "inputVelocity (update_bounds p) = inputVelocity p"
  by (simp_all add: update_bounds_def reset_def)

lemma set_avatar_fields:
  "grounded (set_avatar m p) = grounded p"
  "wait (set_avatar m p) = wait p"
  "timers (set_avatar m p) = timers p"
  "now (set_avatar m p) = now p"
  "accelerationFactor (set_avatar m p) = accelerationFactor p"
  "uiResets (set_avatar m p) = uiResets p"
  "followTarget (set_avatar m p) = followTarget p"
  "pivot (set_avatar m p) = pivot p"
  "body (set_avatar m p) = body p"
  "inputVelocity (set_avatar m p) = inputVelocity p"
  "targetQuaternion (set_avatar m p) = targetQuaternion p"
  by (simp_all add: set_avatar_def split: option.splits)

lemma avatar_set_avatar:
  "avatar (set_avatar m p) = (if animationController p = None then None else Some m)"
  by (simp add: set_avatar_def avatar_def split: option.splits)

lemma avatar_Some_controller: "avatar p = Some m \<Longrightarrow> animationController p \<noteq> None"
  by (auto simp add: avatar_def split: option.splits)

lemma follow_fields:
  "grounded (update_follow delta p) = grounded p"
  "wait (update_follow delta p) = wait p"
  "timers (update_follow delta p) = timers p"
  "now (update_follow delta p) = now p"
  "accelerationFactor (update_follow delta p) = accelerationFactor p"
  "uiResets (update_follow delta p) = uiResets p"
  "body (update_follow delta p) = body p"
  "inputVelocity (update_follow delta p) = inputVelocity p"
  "followTarget (update_follow delta p) = translation (body p)"
  "pivot (update_follow delta p) = Vector3_lerp (pivot p) (translation (body p)) (delta * 10)"
  by (simp_all add: update_follow_def Let_def set_avatar_fields split: option.splits)

lemma avatar_follow:
  "avatar (update_follow delta p) =
     map_option (\<lambda>m. m\<lparr>position := Vector3_lerp (position m) (translation (body p)) (delta * 20)\<rparr>)
       (avatar p)"
  by (auto simp add: update_follow_def Let_def set_avatar_def avatar_def split: option.splits)

lemma orientation_fields:
  "grounded (state_of (update_orientation delta p)) = grounded p"
  "wait (state_of (update_orientation delta p)) = wait p"
  "timers (state_of (update_orientation delta p)) = timers p"
  "now (state_of (update_orientation delta p)) = now p"
  "accelerationFactor (state_of (update_orientation delta p)) = accelerationFactor p"
  "uiResets (state_of (update_orientation delta p)) = uiResets p"
  "body (state_of (update_orientation delta p)) = body p"
  "inputVelocity (state_of (update_orientation delta p)) = inputVelocity p"
  "followTarget (state_of (update_orientation delta p)) = followTarget p"
  "pivot (state_of (update_orientation delta p)) = pivot p"
  by (simp_all add: update_orientation_def Let_def set_avatar_fields split: option.splits)

lemma orientation_returns:
  "returns (update_orientation delta p) = (avatar p \<noteq> None)"
  by (simp add: update_orientation_def Let_def split: option.splits)

lemma animation_fields:
  "grounded (update_animation delta p) = grounded p"
  "wait (update_animation delta p) = wait p"
  "timers (update_animation delta p) = timers p"
  "now (update_animation delta p) = now p"
  "accelerationFactor (update_animation delta p) = accelerationFactor p"
  "uiResets (update_animation delta p) = uiResets p"
  "body (update_animation delta p) = body p"
  "inputVelocity (update_animation delta p) = inputVelocity p"
  "followTarget (update_animation delta p) = followTarget p"
  "pivot (update_animation delta p) = pivot p"
  by (simp_all add: update_animation_def split: option.splits)

lemma avatar_animation: "avatar (update_animation delta p) = avatar p"
  by (simp add: update_animation_def avatar_def split: option.splits)

lemma avatar_impulse: "avatar (update_impulse yaw p) = avatar p"
  by (simp add: avatar_def impulse_fields)

lemma avatar_bounds: "avatar (update_bounds p) = avatar p"
  by (simp add: avatar_def bounds_fields)

lemma avatar_movement: "avatar (state_of (update_movement delta keyMap p)) = avatar p"
  by (simp add: avatar_def movement_fields)

text \<open>The state a call of update leaves.\<close>

lemma update_state:
  "state_of (update delta keyMap yaw p) =
     (case update_movement delta keyMap p of
        Threw e q \<Rightarrow> q
      | Done q \<Rightarrow>
          (case update_orientation delta (update_follow delta (update_bounds (update_impulse yaw q))) of
             Threw e s \<Rightarrow> s
           | Done s \<Rightarrow> update_animation delta s))"
  by (simp add: update_def state_of_and_then split: result.splits)

lemma update_state':
  "state_of (update delta keyMap yaw p) =
     (let q = state_of (update_movement delta keyMap p)
      in if returns (update_movement delta keyMap p) then
           (let r = update_orientation delta (update_follow delta (update_bounds (update_impulse yaw q)))
            in if returns r then update_animation delta (state_of r) else state_of r)
         else q)"
  by (simp add: update_def state_of_and_then Let_def split: result.splits)

lemma update_fields:
  "grounded (state_of (update delta keyMap yaw p)) = grounded p"
  "timers (state_of (update delta keyMap yaw p)) = timers p"
  "now (state_of (update delta keyMap yaw p)) = now p"
  by (simp_all add: update_state' Let_def movement_fields impulse_fields bounds_fields follow_fields
      orientation_fields animation_fields)

lemma update_wait:
  "wait (state_of (update delta keyMap yaw p)) = (wait p \<or> grounded p \<and> keyMap ''Space'')"
  by (simp add: update_state' Let_def movement_wait impulse_fields bounds_fields follow_fields
      orientation_fields animation_fields)

lemma update_accel:
  "accelerationFactor (state_of (update delta keyMap yaw p)) =
     (if grounded p then update_acceleration delta (fst (update_direction keyMap)) (accelerationFactor p)
      else accelerationFactor p)"
  by (simp add: update_state' Let_def movement_accel impulse_fields bounds_fields follow_fields
      orientation_fields animation_fields)

lemma update_colliders:
  "colliders (body (state_of (update delta keyMap yaw p))) =
     (if grounded p \<and> \<not> wait p \<and> keyMap ''Space'' then
        (case colliders (body p) of [] \<Rightarrow> []
         | c # cs \<Rightarrow> cs @ [ColliderDesc_capsule jumpCapsuleHeight jumpCapsuleTranslation 0.5])
      else colliders (body p))"
  by (simp add: update_state' Let_def movement_colliders impulse_fields bounds_fields follow_fields
      orientation_fields animation_fields)

lemma update_returns:
  "returns (update delta keyMap yaw p) =
     ((grounded p \<and> \<not> wait p \<and> keyMap ''Space'' \<longrightarrow> colliders (body p) \<noteq> []) \<and> avatar p \<noteq> None)"
proof (cases "update_movement delta keyMap p")
  case (Done q)
  have q: "q = state_of (update_movement delta keyMap p)" using Done by simp
  have r: "returns (update_movement delta keyMap p)" using Done by simp
  let ?s = "update_follow delta (update_bounds (update_impulse yaw q))"
  have a: "avatar ?s = None \<longleftrightarrow> avatar p = None"
    by (simp add: avatar_follow avatar_bounds avatar_impulse q avatar_movement)
  have "returns (update delta keyMap yaw p) = returns (update_orientation delta ?s)"
    using Done by (cases "update_orientation delta ?s") (simp_all add: update_def)
  then show ?thesis using r a by (simp add: orientation_returns movement_returns)
next
  case (Threw e q)
  then have "\<not> returns (update_movement delta keyMap p)" by simp
  then have c: "grounded p \<and> \<not> wait p \<and> keyMap ''Space'' \<and> colliders (body p) = []"
    by (simp add: movement_returns)
  have "\<not> returns (update delta keyMap yaw p)" using Threw by (simp add: update_def)
  then show ?thesis using c by simp
qed

section \<open>The initial state\<close>

text \<open>
  Claim C1, as stated: right after the constructor, before any call of
  \<open>setGrounded\<close>, the grounded flag is true. The field initialiser of line 19 is
  \<^verbatim>\<open>grounded = false\<close> and the constructor does not assign the field: at the spawn
  position (0, 0, 0) the flag is false.
\<close>

theorem C1_initial_grounded_counterexample:
  "\<not> grounded (constructor (Vector3 0 0 0))"
  by (simp add: constructor_def)

text \<open>
  Claim C1, amended: right after the constructor, whatever the spawn position, the
  grounded flag is false: the state machine starts in the state Airborne, with the
  jump cooldown inactive.
\<close>

theorem C1_initial_airborne:
  "grounded (constructor pos) = False \<and> wait (constructor pos) = False"
  by (simp add: constructor_def)

section \<open>The acceleration factor\<close>

lemma direction_value:
  "update_direction keyMap =
     (Vector3 (if keyMap ''KeyD'' then 1 else if keyMap ''KeyA'' then - 1 else 0) 0
              (if keyMap ''KeyS'' then 1 else if keyMap ''KeyW'' then - 1 else 0),
      if directional keyMap then 9.5 else 1)"
  by (simp add: update_direction_def directional_def Let_def)

lemma direction_length:
  "Vector3_length (fst (update_direction keyMap)) > 0 \<longleftrightarrow> directional keyMap"
  by (simp add: direction_value Vector3_length_def directional_def)

lemma acceleration_value:
  "update_acceleration delta (fst (update_direction keyMap)) a =
     (if directional keyMap then min 2 (a + delta * 0.1) else 1)"
  using direction_length[of keyMap]
  by (simp add: update_acceleration_def Let_def min_def)

lemma setGrounded_fields:
  "grounded (state_of (setGrounded g p)) = g"
  "wait (state_of (setGrounded g p)) = wait p"
  "now (state_of (setGrounded g p)) = now p"
  "accelerationFactor (state_of (setGrounded g p)) = accelerationFactor p"
  "uiResets (state_of (setGrounded g p)) = uiResets p"
  "animationController (state_of (setGrounded g p)) = animationController p"
  "inputVelocity (state_of (setGrounded g p)) = inputVelocity p"
  "translation (body (state_of (setGrounded g p))) = translation (body p)"
  "linvel (body (state_of (setGrounded g p))) = linvel (body p)"
  by (auto simp add: setGrounded_def Let_def updateCapsuleHeight_fields)

lemma setGrounded_timers:
  "timers (state_of (setGrounded g p)) =
     (if g \<and> \<not> grounded p then timers p @ [now p + 250] else timers p)"
  by (auto simp add: setGrounded_def Let_def updateCapsuleHeight_fields)

lemma setGrounded_colliders:
  "colliders (body (state_of (setGrounded g p))) =
     (if g \<and> \<not> grounded p then
        (case colliders (body p) of [] \<Rightarrow> []
         | c # cs \<Rightarrow> cs @ [ColliderDesc_capsule originalCapsuleHeight originalCapsuleTranslation 0.5])
      else colliders (body p))"
  by (auto simp add: setGrounded_def Let_def updateCapsuleHeight_colliders)

lemma setGrounded_returns:
  "returns (setGrounded g p) = (g \<and> \<not> grounded p \<longrightarrow> colliders (body p) \<noteq> [])"
  by (auto simp add: setGrounded_def Let_def updateCapsuleHeight_returns)

lemma exec_accel:
  "accelerationFactor (exec e p) =
     (case e of
        Update delta keyMap yaw \<Rightarrow>
          (if grounded p then
             (if directional keyMap then min 2 (accelerationFactor p + delta * 0.1) else 1)
           else accelerationFactor p)
      | _ \<Rightarrow> accelerationFactor p)"
  by (cases e)
     (simp_all add: init_fields elapse_def Let_def setGrounded_fields update_accel acceleration_value
        updateCapsuleHeight_fields)

lemma exec_accel_bounds:
  assumes "nonneg_delta e" "1 \<le> accelerationFactor p" "accelerationFactor p \<le> 2"
  shows "1 \<le> accelerationFactor (exec e p) \<and> accelerationFactor (exec e p) \<le> 2"
  using assms by (cases e) (simp_all add: exec_accel del: exec.simps)

lemma run_accel_bounds:
  "list_all nonneg_delta es \<Longrightarrow> 1 \<le> accelerationFactor p \<Longrightarrow> accelerationFactor p \<le> 2 \<Longrightarrow>
   1 \<le> accelerationFactor (run es p) \<and> accelerationFactor (run es p) \<le> 2"
proof (induction es arbitrary: p)
  case Nil
  then show ?case by simp
next
  case (Cons e es)
  have "1 \<le> accelerationFactor (exec e p) \<and> accelerationFactor (exec e p) \<le> 2"
    using Cons.prems by (intro exec_accel_bounds) simp_all
  then show ?case using Cons.IH[of "exec e p"] Cons.prems by simp
qed

text \<open>
  Claim C2, amended. In every state \<open>p\<close> that a trace of events with frame durations
  that are not negative reaches from the constructor, the acceleration factor lies in
  the interval from 1 to 2. A call of \<open>update\<close> in \<open>p\<close> sets it to exactly 1 when the
  controller is grounded and no directional key is held, raises it by \<open>delta * 0.1\<close>
  up to the cap 2 when the controller is grounded and a directional key is held, and
  leaves it as it is when the controller is airborne: lines 109 to 116 are inside the
  block guarded by \<^verbatim>\<open>if (this.grounded)\<close> of line 91.
\<close>

theorem C2_acceleration_factor:
  assumes "list_all nonneg_delta es" and "p = run es (constructor pos)"
  shows "1 \<le> accelerationFactor p \<and> accelerationFactor p \<le> 2 \<and>
         accelerationFactor (state_of (update delta keyMap yaw p)) =
           (if grounded p then
              (if directional keyMap then min 2 (accelerationFactor p + delta * 0.1) else 1)
            else accelerationFactor p)"
proof -
  have "accelerationFactor (constructor pos) = 1" by (simp add: constructor_def)
  then have "1 \<le> accelerationFactor p \<and> accelerationFactor p \<le> 2"
    using run_accel_bounds[OF assms(1), of "constructor pos"] assms(2) by simp
  then show ?thesis by (simp add: update_accel acceleration_value)
qed


lemma exec_grounded:
  "grounded (exec e p) = (case e of SetGrounded g \<Rightarrow> g | _ \<Rightarrow> grounded p)"
  by (cases e)
     (simp_all add: init_fields elapse_def Let_def setGrounded_fields update_fields
        updateCapsuleHeight_fields)

lemma exec_wait:
  "wait (exec e p) =
     (case e of
        Update delta keyMap yaw \<Rightarrow> wait p \<or> grounded p \<and> keyMap ''Space''
      | Elapse d \<Rightarrow> wait p \<and> filter (\<lambda>x. x \<le> now p + d) (timers p) = []
      | _ \<Rightarrow> wait p)"
  by (cases e)
     (simp_all add: init_fields elapse_def Let_def setGrounded_fields update_wait
        updateCapsuleHeight_fields)

lemma exec_now:
  "now (exec e p) = (case e of Elapse d \<Rightarrow> now p + d | _ \<Rightarrow> now p)"
  by (cases e)
     (simp_all add: init_fields elapse_def Let_def setGrounded_fields update_fields
        updateCapsuleHeight_fields)

lemma exec_timers:
  "timers (exec e p) =
     (case e of
        SetGrounded g \<Rightarrow> if g \<and> \<not> grounded p then timers p @ [now p + 250] else timers p
      | Elapse d \<Rightarrow> filter (\<lambda>x. \<not> x \<le> now p + d) (timers p)
      | _ \<Rightarrow> timers p)"
  by (cases e)
     (simp_all add: init_fields elapse_def Let_def setGrounded_timers update_fields
        updateCapsuleHeight_fields)

lemmas exec_view = exec_grounded exec_wait exec_now exec_timers exec_accel

lemma constructor_view:
  "grounded (constructor pos) = False"
  "wait (constructor pos) = False"
  "now (constructor pos) = 0"
  "timers (constructor pos) = []"
  "accelerationFactor (constructor pos) = 1"
  by (simp_all add: constructor_def)

text \<open>
  The theorem at a trace that spawns, lands and walks forward for one frame: the next
  frame with no key held resets the factor to 1.
\<close>

theorem C2_acceleration_factor_witness:
  "list_all nonneg_delta [InitStart, InitReady, SetGrounded True, Update 0.016 (held [''KeyW'']) 0] \<and>
   1 \<le> accelerationFactor
         (run [InitStart, InitReady, SetGrounded True, Update 0.016 (held [''KeyW'']) 0] (constructor (Vector3 0 0 0))) \<and>
   accelerationFactor
     (run [InitStart, InitReady, SetGrounded True, Update 0.016 (held [''KeyW'']) 0] (constructor (Vector3 0 0 0))) \<le> 2 \<and>
   accelerationFactor
     (state_of (update 0.016 (held []) 0
        (run [InitStart, InitReady, SetGrounded True, Update 0.016 (held [''KeyW'']) 0] (constructor (Vector3 0 0 0))))) = 1"
  using C2_acceleration_factor
          [of "[InitStart, InitReady, SetGrounded True, Update 0.016 (held [''KeyW'']) 0]"
              "run [InitStart, InitReady, SetGrounded True, Update 0.016 (held [''KeyW'']) 0] (constructor (Vector3 0 0 0))"
              "Vector3 0 0 0" "0.016" "held []" 0]
  by (simp add: exec_view constructor_view held_def directional_def del: exec.simps)

text \<open>
  Claim C2, as stated, says that the factor is exactly 1 after any call of
  \<open>update\<close> in which no directional key is held, grounded or airborne. The controller
  lands, walks forward for one frame of 16 ms (the factor becomes 1.0016), leaves the
  ground, and is updated with no key held: the factor is still 1.0016.
\<close>

theorem C2_airborne_counterexample:
  "\<not> directional (held []) \<and>
   accelerationFactor
     (run [InitStart, InitReady, SetGrounded True, Update 0.016 (held [''KeyW'']) 0, SetGrounded False,
           Update 0.016 (held []) 0] (constructor (Vector3 0 0 0))) = 626 / 625 \<and>
   accelerationFactor
     (run [InitStart, InitReady, SetGrounded True, Update 0.016 (held [''KeyW'']) 0, SetGrounded False,
           Update 0.016 (held []) 0] (constructor (Vector3 0 0 0))) \<noteq> 1"
  by (simp add: exec_view constructor_view held_def directional_def del: exec.simps)

section \<open>Holding the forward key\<close>

lemma run_replicate_Suc: "run (replicate (Suc n) e) p = run (replicate n e) (exec e p)"
  by simp

lemma min_ramp:
  fixes a x y :: real
  shows "0 \<le> x \<Longrightarrow> 0 \<le> y \<Longrightarrow> min 2 (min 2 (a + x) + y) = min 2 (a + (x + y))"
  by (auto simp add: min_def)

lemma forward_ramp:
  assumes "grounded p" and "directional keyMap" and "0 \<le> d" and "accelerationFactor p \<le> 2"
  shows "accelerationFactor (run (replicate n (Update d keyMap yaw)) p) =
           min 2 (accelerationFactor p + real n * (d * 0.1))"
  using assms(1) assms(4)
proof (induction n arbitrary: p)
  case 0
  then show ?case by simp
next
  case (Suc n)
  let ?e = "Update d keyMap yaw"
  have g: "grounded (exec ?e p)" using Suc.prems by (simp add: exec_grounded del: exec.simps)
  have a: "accelerationFactor (exec ?e p) = min 2 (accelerationFactor p + d * 0.1)"
    using Suc.prems assms(2) by (simp add: exec_accel del: exec.simps)
  have a2: "accelerationFactor (exec ?e p) \<le> 2" unfolding a by simp
  have "accelerationFactor (run (replicate (Suc n) ?e) p) =
          min 2 (min 2 (accelerationFactor p + d * 0.1) + real n * (d * 0.1))"
    using Suc.IH[OF g a2] a by (simp only: run_replicate_Suc)
  also have "\<dots> = min 2 (accelerationFactor p + (d * 0.1 + real n * (d * 0.1)))"
  proof -
    have x: "0 \<le> d * 0.1" using assms(3) by simp
    have y: "0 \<le> real n * (d * 0.1)" using assms(3) by simp
    show ?thesis using x y by (rule min_ramp)
  qed
  also have "d * 0.1 + real n * (d * 0.1) = real (Suc n) * (d * 0.1)"
    by (simp add: algebra_simps)
  finally show ?case .
qed

lemma forward_key_directional: "keyMap ''KeyW'' \<Longrightarrow> directional keyMap"
  by (simp add: directional_def)

text \<open>
  Claim C3, amended. From a grounded state with the acceleration factor 1, over
  consecutive frames of 0.016 s with the forward key held the factor never decreases,
  stays between 1 and 2, and strictly increases in each of the first 625 frames; in
  each of the first 624 frames, so in each of the 60 frames of the scenario, it grows
  by more than 0.0015 and by less than 0.0017. After 60 frames it lies between 1.09 and
  1.1, far from 2; it is exactly 2 after 626 frames and from then on. The bounds leave
  room for the rounding of the additions of line 110.
\<close>

theorem C3_forward_ramp:
  assumes "grounded p" and "accelerationFactor p = 1" and "keyMap ''KeyW''"
  shows "accelerationFactor (run (replicate n (Update 0.016 keyMap yaw)) p)
           \<le> accelerationFactor (run (replicate (Suc n) (Update 0.016 keyMap yaw)) p) \<and>
         1 \<le> accelerationFactor (run (replicate n (Update 0.016 keyMap yaw)) p) \<and>
         accelerationFactor (run (replicate n (Update 0.016 keyMap yaw)) p) \<le> 2 \<and>
         (n < 625 \<longrightarrow>
            accelerationFactor (run (replicate n (Update 0.016 keyMap yaw)) p)
              < accelerationFactor (run (replicate (Suc n) (Update 0.016 keyMap yaw)) p)) \<and>
         (n < 624 \<longrightarrow>
            0.0015 < accelerationFactor (run (replicate (Suc n) (Update 0.016 keyMap yaw)) p)
                       - accelerationFactor (run (replicate n (Update 0.016 keyMap yaw)) p) \<and>
            accelerationFactor (run (replicate (Suc n) (Update 0.016 keyMap yaw)) p)
              - accelerationFactor (run (replicate n (Update 0.016 keyMap yaw)) p) < 0.0017) \<and>
         1.09 < accelerationFactor (run (replicate 60 (Update 0.016 keyMap yaw)) p) \<and>
         accelerationFactor (run (replicate 60 (Update 0.016 keyMap yaw)) p) < 1.1 \<and>
         accelerationFactor (run (replicate (626 + n) (Update 0.016 keyMap yaw)) p) = 2"
proof -
  have r: "accelerationFactor (run (replicate m (Update 0.016 keyMap yaw)) p) =
             min 2 (1 + real m * 0.0016)" for m
    using forward_ramp[where p = p and keyMap = keyMap and d = "0.016" and n = m and yaw = yaw]
      assms forward_key_directional[where keyMap = keyMap]
    by simp
  have s: "real (Suc n) = real n + 1" by simp
  have c1: "n < 625 \<Longrightarrow> real n + 1 \<le> 625" by linarith
  have c2: "n < 624 \<Longrightarrow> real n + 1 \<le> 624" by linarith
  have c3: "real (626 + n) = 626 + real n" by simp
  have c0: "0 \<le> real n" by simp
  have d: "min 2 (1 + (real n + 1) * 0.0016) - min 2 (1 + real n * 0.0016) = (0.0016::real)"
    if "n < 624"
  proof -
    have u: "1 + (real n + 1) * 0.0016 \<le> (2::real)" using c2[OF that] by simp
    have l: "1 + real n * 0.0016 \<le> (2::real)" using c2[OF that] by simp
    have "min 2 (1 + (real n + 1) * 0.0016) - min 2 (1 + real n * 0.0016) =
            (1 + (real n + 1) * 0.0016) - (1 + real n * 0.0016)"
      using u l by (simp only: min_absorb2)
    also have "\<dots> = 0.0016" by (simp add: algebra_simps)
    finally show ?thesis .
  qed
  have 4: "n < 624 \<longrightarrow>
            0.0015 < min 2 (1 + (real n + 1) * 0.0016) - min 2 (1 + real n * 0.0016) \<and>
            min 2 (1 + (real n + 1) * 0.0016) - min 2 (1 + real n * 0.0016) < (0.0017::real)"
  proof
    assume "n < 624"
    then have e: "min 2 (1 + (real n + 1) * 0.0016) - min 2 (1 + real n * 0.0016) = (0.0016::real)"
      by (rule d)
    show "0.0015 < min 2 (1 + (real n + 1) * 0.0016) - min 2 (1 + real n * 0.0016) \<and>
          min 2 (1 + (real n + 1) * 0.0016) - min 2 (1 + real n * 0.0016) < (0.0017::real)"
      unfolding e by simp
  qed
  have rest: "min 2 (1 + real n * 0.0016) \<le> min 2 (1 + (real n + 1) * 0.0016) \<and>
         1 \<le> min 2 (1 + real n * 0.0016) \<and>
         min 2 (1 + real n * 0.0016) \<le> (2::real) \<and>
         (n < 625 \<longrightarrow> min 2 (1 + real n * 0.0016) < min 2 (1 + (real n + 1) * 0.0016)) \<and>
         1.09 < min 2 (1 + real 60 * 0.0016) \<and>
         min 2 (1 + real 60 * 0.0016) < (1.1::real) \<and>
         min 2 (1 + (626 + real n) * 0.0016) = (2::real)"
    using c0 c1 by (auto simp add: min_def)
  show ?thesis
    unfolding r s c3 using rest 4 by blast
qed

text \<open>The theorem at the controller that has just landed, for the sixtieth frame.\<close>

theorem C3_forward_ramp_witness:
  "grounded (run [InitStart, InitReady, SetGrounded True] (constructor (Vector3 0 0 0))) \<and>
   accelerationFactor (run [InitStart, InitReady, SetGrounded True] (constructor (Vector3 0 0 0))) = 1 \<and>
   held [''KeyW''] ''KeyW'' \<and> (59::nat) < 625 \<and> (59::nat) < 624 \<and>
   accelerationFactor
     (run (replicate 59 (Update 0.016 (held [''KeyW'']) 0))
        (run [InitStart, InitReady, SetGrounded True] (constructor (Vector3 0 0 0))))
     < accelerationFactor
         (run (replicate (Suc 59) (Update 0.016 (held [''KeyW'']) 0))
            (run [InitStart, InitReady, SetGrounded True] (constructor (Vector3 0 0 0)))) \<and>
   0.0015 < accelerationFactor
         (run (replicate (Suc 59) (Update 0.016 (held [''KeyW'']) 0))
            (run [InitStart, InitReady, SetGrounded True] (constructor (Vector3 0 0 0))))
       - accelerationFactor
         (run (replicate 59 (Update 0.016 (held [''KeyW'']) 0))
            (run [InitStart, InitReady, SetGrounded True] (constructor (Vector3 0 0 0)))) \<and>
   accelerationFactor
     (run (replicate 60 (Update 0.016 (held [''KeyW'']) 0))
        (run [InitStart, InitReady, SetGrounded True] (constructor (Vector3 0 0 0)))) < 1.1 \<and>
   accelerationFactor
     (run (replicate (Suc 59) (Update 0.016 (held [''KeyW'']) 0))
        (run [InitStart, InitReady, SetGrounded True] (constructor (Vector3 0 0 0)))) \<le> 2"
proof -
  let ?p = "run [InitStart, InitReady, SetGrounded True] (constructor (Vector3 0 0 0))"
  have h1: "grounded ?p"
    by (simp add: exec_grounded del: exec.simps)
  have h2: "accelerationFactor ?p = 1"
    by (simp add: exec_accel constructor_view del: exec.simps)
  have h3: "held [''KeyW''] ''KeyW''"
    by (simp add: held_def)
  have h4: "(59::nat) < 625" "(59::nat) < 624" by simp_all
  show ?thesis
    using h1 h2 h3 h4
      C3_forward_ramp[where p = ?p and keyMap = "held [''KeyW'']" and n = 59 and yaw = 0]
      C3_forward_ramp[where p = ?p and keyMap = "held [''KeyW'']" and n = "Suc 59" and yaw = 0]
    by blast
qed

text \<open>
  Claim C3, as stated, has the factor converge to 2.0 in the 60 frames of the scenario.
  Each frame adds \<open>0.016 * 0.1\<close>: after the 60 frames the factor is below 1.1, more
  than 0.9 below 2.0.
\<close>

theorem C3_sixty_frames_counterexample:
  "accelerationFactor
     (run (replicate 60 (Update 0.016 (held [''KeyW'']) 0))
        (run [InitStart, InitReady, SetGrounded True] (constructor (Vector3 0 0 0)))) < 11 / 10 \<and>
   2 - accelerationFactor
         (run (replicate 60 (Update 0.016 (held [''KeyW'']) 0))
            (run [InitStart, InitReady, SetGrounded True] (constructor (Vector3 0 0 0)))) > 9 / 10"
proof -
  let ?p = "run [InitStart, InitReady, SetGrounded True] (constructor (Vector3 0 0 0))"
  have h1: "grounded ?p"
    by (simp add: exec_grounded del: exec.simps)
  have h2: "accelerationFactor ?p = 1"
    by (simp add: exec_accel constructor_view del: exec.simps)
  have h3: "directional (held [''KeyW''])"
    by (simp add: held_def directional_def)
  have "accelerationFactor (run (replicate 60 (Update 0.016 (held [''KeyW'']) 0)) ?p) = 137 / 125"
    using forward_ramp[where p = ?p and keyMap = "held [''KeyW'']" and d = "0.016" and n = 60 and yaw = 0]
      h1 h2 h3 by simp
  then show ?thesis by simp
qed

section \<open>The impulse\<close>

lemma yaw_quaternion:
  "Quaternion_setFromEuler 0 yaw 0 = Quaternion 0 (sin (yaw / 2)) 0 (cos (yaw / 2))"
  by (simp add: Quaternion_setFromEuler_def)

lemma applyQuaternion_zero: "Vector3_applyQuaternion (Vector3 0 0 0) q = Vector3 0 0 0"
  by (simp add: Vector3_applyQuaternion_def)

lemma applyQuaternion_yaw_y:
  "v_y (Vector3_applyQuaternion v (Quaternion_setFromEuler 0 yaw 0)) = v_y v"
  by (simp add: Vector3_applyQuaternion_def yaw_quaternion Let_def)

lemma setLength_zero: "Vector3_setLength (Vector3 0 0 0) l = Vector3 0 0 0"
  by (simp add: Vector3_setLength_def Vector3_normalize_def Vector3_divideScalar_def
      Vector3_multiplyScalar_def Vector3_length_def)

lemma setLength_y: "v_y v = 0 \<Longrightarrow> v_y (Vector3_setLength v l) = 0"
  by (simp add: Vector3_setLength_def Vector3_normalize_def Vector3_divideScalar_def
      Vector3_multiplyScalar_def)

lemma direction_y: "v_y (fst (update_direction keyMap)) = 0"
  by (simp add: direction_value)

lemma applyImpulse_zero: "applyImpulse (Vector3 0 0 0) b = b"
  by (simp add: applyImpulse_def)

lemma movement_inputVelocity_y:
  "v_y (inputVelocity (state_of (update_movement delta keyMap p))) = (if jumps keyMap p then 5 else 0)"
  by (simp add: movement_inputVelocity Let_def jumps_def setLength_y direction_y)

lemma update_inputVelocity:
  "inputVelocity (state_of (update delta keyMap yaw p)) =
     (if returns (update_movement delta keyMap p) then
        Vector3_applyQuaternion (inputVelocity (state_of (update_movement delta keyMap p)))
          (Quaternion_setFromEuler 0 yaw 0)
      else inputVelocity (state_of (update_movement delta keyMap p)))"
  by (simp add: update_state' Let_def impulse_fields bounds_fields follow_fields
      orientation_fields animation_fields)

lemma update_inputVelocity_y:
  "v_y (inputVelocity (state_of (update delta keyMap yaw p))) = (if jumps keyMap p then 5 else 0)"
  by (simp add: update_inputVelocity applyQuaternion_yaw_y movement_inputVelocity_y)

text \<open>
  Claim C7. For every positive \<open>delta\<close>, when the controller is grounded and none of
  the four directional keys and not the jump key is held, the impulse of the call is
  the zero vector, before and after it is turned by the yaw of the camera, the call
  of \<open>applyImpulse\<close> leaves the linear velocity of the body as it is, and the field
  \<open>inputVelocity\<close> is the zero vector when the call is over.
\<close>

theorem C7_no_keys_zero_impulse:
  assumes "0 < delta" and "grounded p"
    and "\<not> keyMap ''KeyW''" and "\<not> keyMap ''KeyS''" and "\<not> keyMap ''KeyA''"
    and "\<not> keyMap ''KeyD''" and "\<not> keyMap ''Space''"
  shows "inputVelocity (state_of (update_movement delta keyMap p)) = Vector3 0 0 0 \<and>
         inputVelocity (update_impulse yaw (state_of (update_movement delta keyMap p))) = Vector3 0 0 0 \<and>
         linvel (body (update_impulse yaw (state_of (update_movement delta keyMap p)))) = linvel (body p) \<and>
         inputVelocity (state_of (update delta keyMap yaw p)) = Vector3 0 0 0"
proof -
  have d: "fst (update_direction keyMap) = Vector3 0 0 0"
    using assms by (simp add: direction_value)
  have m: "inputVelocity (state_of (update_movement delta keyMap p)) = Vector3 0 0 0"
    using assms by (simp add: movement_inputVelocity d setLength_zero)
  have i: "inputVelocity (update_impulse yaw (state_of (update_movement delta keyMap p))) = Vector3 0 0 0"
    by (simp add: impulse_fields m applyQuaternion_zero)
  have l: "linvel (body (update_impulse yaw (state_of (update_movement delta keyMap p)))) = linvel (body p)"
    by (simp add: update_impulse_def Let_def m applyQuaternion_zero applyImpulse_zero movement_fields)
  have u: "inputVelocity (state_of (update delta keyMap yaw p)) = Vector3 0 0 0"
    by (simp add: update_inputVelocity m applyQuaternion_zero)
  show ?thesis using m i l u by simp
qed

text \<open>
  The theorem at the controller that has just landed, for a frame of 16 ms and a camera
  turned by half a radian.
\<close>

theorem C7_no_keys_zero_impulse_witness:
  "(0::real) < 0.016 \<and> grounded (run [InitStart, InitReady, SetGrounded True] (constructor (Vector3 0 0 0))) \<and>
   \<not> held [] ''KeyW'' \<and> \<not> held [] ''KeyS'' \<and> \<not> held [] ''KeyA'' \<and> \<not> held [] ''KeyD'' \<and>
   \<not> held [] ''Space'' \<and>
   inputVelocity
     (state_of (update 0.016 (held []) (1/2) (run [InitStart, InitReady, SetGrounded True] (constructor (Vector3 0 0 0)))))
     = Vector3 0 0 0"
proof -
  let ?p = "run [InitStart, InitReady, SetGrounded True] (constructor (Vector3 0 0 0))"
  have g: "grounded ?p" by (simp add: exec_grounded del: exec.simps)
  have k: "\<not> held [] ''KeyW''" "\<not> held [] ''KeyS''" "\<not> held [] ''KeyA''" "\<not> held [] ''KeyD''"
    "\<not> held [] ''Space''"
    by (simp_all add: held_def)
  have d: "(0::real) < 0.016" by simp
  show ?thesis
    using d g k C7_no_keys_zero_impulse[where delta = "0.016" and p = ?p and keyMap = "held []" and yaw = "1/2"]
    by blast
qed

section \<open>Opposite keys\<close>

text \<open>
  Claim C8. When the forward and the back key are both held, the forward/back axis of
  the local direction vector has the value of the back key, 1; when the left and the
  right key are both held, the left/right axis has the value of the right key, 1. While
  the controller is grounded and a directional key is held, the impulse in the frame of
  the player is this direction vector, set to the length \<open>delta * 9.5\<close> times the new
  acceleration factor, with the vertical component 5 when the call jumps.
\<close>

theorem C8_later_key_wins:
  "(keyMap ''KeyW'' \<and> keyMap ''KeyS'' \<longrightarrow> v_z (fst (update_direction keyMap)) = 1) \<and>
   (keyMap ''KeyA'' \<and> keyMap ''KeyD'' \<longrightarrow> v_x (fst (update_direction keyMap)) = 1) \<and>
   (grounded p \<and> directional keyMap \<longrightarrow>
      inputVelocity (state_of (update_movement delta keyMap p)) =
        (let v = Vector3_setLength (fst (update_direction keyMap))
                   (delta * 9.5 * min 2 (accelerationFactor p + delta * 0.1))
         in if jumps keyMap p then Vector3 (v_x v) 5 (v_z v) else v))"
  by (simp add: movement_inputVelocity acceleration_value jumps_def Let_def)
     (simp add: direction_value)

text \<open>The theorem with all four directional keys held: the direction is (1, 0, 1).\<close>

theorem C8_later_key_wins_witness:
  "held [''KeyW'', ''KeyS'', ''KeyA'', ''KeyD''] ''KeyW'' \<and>
   held [''KeyW'', ''KeyS'', ''KeyA'', ''KeyD''] ''KeyS'' \<and>
   held [''KeyW'', ''KeyS'', ''KeyA'', ''KeyD''] ''KeyA'' \<and>
   held [''KeyW'', ''KeyS'', ''KeyA'', ''KeyD''] ''KeyD'' \<and>
   grounded (run [InitStart, InitReady, SetGrounded True] (constructor (Vector3 0 0 0))) \<and>
   directional (held [''KeyW'', ''KeyS'', ''KeyA'', ''KeyD'']) \<and>
   update_direction (held [''KeyW'', ''KeyS'', ''KeyA'', ''KeyD'']) = (Vector3 1 0 1, 9.5) \<and>
   v_z (fst (update_direction (held [''KeyW'', ''KeyS'', ''KeyA'', ''KeyD'']))) = 1 \<and>
   v_x (fst (update_direction (held [''KeyW'', ''KeyS'', ''KeyA'', ''KeyD'']))) = 1"
proof -
  let ?k = "held [''KeyW'', ''KeyS'', ''KeyA'', ''KeyD'']"
  let ?p = "run [InitStart, InitReady, SetGrounded True] (constructor (Vector3 0 0 0))"
  have k: "?k ''KeyW''" "?k ''KeyS''" "?k ''KeyA''" "?k ''KeyD''" "directional ?k"
    by (simp_all add: held_def directional_def)
  have g: "grounded ?p" by (simp add: exec_grounded del: exec.simps)
  have v: "update_direction ?k = (Vector3 1 0 1, 9.5)"
    by (simp add: update_direction_def held_def Let_def)
  have c: "v_z (fst (update_direction ?k)) = 1 \<and> v_x (fst (update_direction ?k)) = 1"
    using k C8_later_key_wins[where keyMap = ?k and p = ?p and delta = "0.016"]
    by blast
  show ?thesis
    using k g v c by blast
qed

section \<open>The collider of the body\<close>

lemma exec_colliders:
  "colliders (body (exec e p)) =
     (case e of
        SetGrounded g \<Rightarrow>
          (if g \<and> \<not> grounded p then
             (case colliders (body p) of [] \<Rightarrow> []
              | c # cs \<Rightarrow> cs @ [ColliderDesc_capsule originalCapsuleHeight originalCapsuleTranslation 0.5])
           else colliders (body p))
      | Update delta keyMap yaw \<Rightarrow>
          (if jumps keyMap p then
             (case colliders (body p) of [] \<Rightarrow> []
              | c # cs \<Rightarrow> cs @ [ColliderDesc_capsule jumpCapsuleHeight jumpCapsuleTranslation 0.5])
           else colliders (body p))
      | UpdateCapsuleHeight h t \<Rightarrow>
          (case colliders (body p) of [] \<Rightarrow> []
           | c # cs \<Rightarrow> cs @ [ColliderDesc_capsule h t 0.5])
      | _ \<Rightarrow> colliders (body p))"
  by (cases e)
     (simp_all add: init_fields elapse_def Let_def setGrounded_colliders update_colliders jumps_def
        updateCapsuleHeight_colliders)

lemma exec_one_collider:
  "length (colliders (body p)) = 1 \<Longrightarrow> length (colliders (body (exec e p))) = 1"
  by (cases e) (auto simp add: exec_colliders simp del: exec.simps split: list.splits)

lemma run_one_collider:
  "length (colliders (body p)) = 1 \<Longrightarrow> length (colliders (body (run es p))) = 1"
  by (induction es arbitrary: p) (simp_all add: exec_one_collider del: exec.simps)

lemma reachable_one_collider:
  "\<exists>c. colliders (body (run es (constructor pos))) = [c]"
proof -
  have "length (colliders (body (constructor pos))) = 1" by (simp add: constructor_def)
  then have "length (colliders (body (run es (constructor pos)))) = 1" by (rule run_one_collider)
  then show ?thesis by (cases "colliders (body (run es (constructor pos)))") simp_all
qed

text \<open>
  Claim C9. In a state that a trace of events reaches from the constructor, a
  transition from airborne to grounded returns and leaves the body with exactly one
  collider, the capsule of the standing profile: height 0.5 and translation
  (0, 0.645, 0), whatever capsule was attached before.
\<close>

theorem C9_landing_restores_standing:
  assumes "p = run es (constructor pos)" and "\<not> grounded p"
  shows "returns (setGrounded True p) \<and>
         grounded (state_of (setGrounded True p)) \<and>
         colliders (body (state_of (setGrounded True p))) =
           [ColliderDesc_capsule originalCapsuleHeight originalCapsuleTranslation 0.5] \<and>
         map capsuleHeight (colliders (body (state_of (setGrounded True p)))) = [0.5] \<and>
         map capsuleTranslation (colliders (body (state_of (setGrounded True p)))) = [Vector3 0 0.645 0]"
proof -
  obtain c where c: "colliders (body p) = [c]"
    using reachable_one_collider[of es pos] assms(1) by auto
  have r: "returns (setGrounded True p)"
    using c by (simp add: setGrounded_returns)
  have s: "colliders (body (state_of (setGrounded True p))) =
             [ColliderDesc_capsule originalCapsuleHeight originalCapsuleTranslation 0.5]"
    using c assms(2) by (simp add: setGrounded_colliders)
  show ?thesis
    using r unfolding s
    by (simp add: setGrounded_fields ColliderDesc_capsule_def originalCapsuleHeight_def
        originalCapsuleTranslation_def)
qed

text \<open>
  The theorem after a jump: the controller lands, jumps, which attaches the crouch-jump
  capsule, and leaves the ground; the next landing attaches the standing capsule.
\<close>

theorem C9_landing_restores_standing_witness:
  "\<not> grounded (run [InitStart, InitReady, SetGrounded True, Update 0.016 (held [''Space'']) 0, SetGrounded False]
                  (constructor (Vector3 0 0 0))) \<and>
   colliders (body (run [InitStart, InitReady, SetGrounded True, Update 0.016 (held [''Space'']) 0, SetGrounded False]
                  (constructor (Vector3 0 0 0)))) =
     [ColliderDesc_capsule jumpCapsuleHeight jumpCapsuleTranslation 0.5] \<and>
   map capsuleHeight (colliders (body (state_of (setGrounded True
     (run [InitStart, InitReady, SetGrounded True, Update 0.016 (held [''Space'']) 0, SetGrounded False]
                  (constructor (Vector3 0 0 0))))))) = [0.5] \<and>
   map capsuleTranslation (colliders (body (state_of (setGrounded True
     (run [InitStart, InitReady, SetGrounded True, Update 0.016 (held [''Space'']) 0, SetGrounded False]
                  (constructor (Vector3 0 0 0))))))) = [Vector3 0 0.645 0]"
proof -
  let ?es = "[InitStart, InitReady, SetGrounded True, Update 0.016 (held [''Space'']) 0, SetGrounded False]"
  let ?p = "run ?es (constructor (Vector3 0 0 0))"
  have g: "\<not> grounded ?p" by (simp add: exec_grounded del: exec.simps)
  have c: "colliders (body ?p) = [ColliderDesc_capsule jumpCapsuleHeight jumpCapsuleTranslation 0.5]"
    by (simp add: exec_colliders exec_view jumps_def held_def constructor_view del: exec.simps)
       (simp add: constructor_def)
  show ?thesis
    using g c C9_landing_restores_standing[where p = ?p and es = ?es and pos = "Vector3 0 0 0"]
    by blast
qed

section \<open>Falling out of bounds\<close>

lemma avatar_orientation_position:
  "map_option position (avatar (state_of (update_orientation delta p))) = map_option position (avatar p)"
  by (auto simp add: update_orientation_def Let_def set_avatar_def avatar_def
      split: option.splits)

lemma controller_orientation:
  "map_option advanced (animationController (state_of (update_orientation delta p))) =
     map_option advanced (animationController p)"
  by (auto simp add: update_orientation_def Let_def set_avatar_def avatar_def
      split: option.splits)

lemma controller_follow:
  "map_option advanced (animationController (update_follow delta p)) =
     map_option advanced (animationController p)"
  by (auto simp add: update_follow_def Let_def set_avatar_def avatar_def
      split: option.splits)

lemma controller_animation:
  "map_option advanced (animationController (update_animation delta p)) =
     map_option (\<lambda>l. l @ [delta]) (map_option advanced (animationController p))"
  by (auto simp add: update_animation_def split: option.splits)

lemma reset_fields:
  "linvel (body (reset p)) = Vector3 0 0 0"
  "translation (body (reset p)) = Vector3 0 1 0"
  "uiResets (reset p) = uiResets p + 1"
  "colliders (body (reset p)) = colliders (body p)"
  "animationController (reset p) = animationController p"
  "pivot (reset p) = pivot p"
  by (simp_all add: reset_def)

lemma avatar_reset: "avatar (reset p) = avatar p"
  by (simp add: avatar_def reset_fields)

text \<open>
  Claim C5. In a state that a trace of events reaches from the constructor, when the
  vertical position of the body is below \<open>- 3\<close> at the start of \<open>update\<close>, the call
  invokes \<open>reset\<close> exactly once (the count of UI resets grows by one), and when it is
  over the linear velocity of the body is (0, 0, 0) and its translation (0, 1, 0). The
  steps after the check work on the body as reset: the follow target is at (0, 1, 0),
  the pivot of the camera and the avatar have moved towards (0, 1, 0), and the call
  returns and advances the animation exactly when the avatar is there. Any call of
  \<open>reset\<close> sets the velocity to (0, 0, 0) and the translation to (0, 1, 0) and
  notifies the UI once.
\<close>

theorem C5_out_of_bounds_reset:
  assumes "v_y (translation (body p)) < - 3" and "p = run es (constructor pos)"
  shows "uiResets (state_of (update delta keyMap yaw p)) = uiResets p + 1 \<and>
         linvel (body (state_of (update delta keyMap yaw p))) = Vector3 0 0 0 \<and>
         translation (body (state_of (update delta keyMap yaw p))) = Vector3 0 1 0 \<and>
         followTarget (state_of (update delta keyMap yaw p)) = Vector3 0 1 0 \<and>
         pivot (state_of (update delta keyMap yaw p)) = Vector3_lerp (pivot p) (Vector3 0 1 0) (delta * 10) \<and>
         map_option position (avatar (state_of (update delta keyMap yaw p))) =
           map_option (\<lambda>m. Vector3_lerp (position m) (Vector3 0 1 0) (delta * 20)) (avatar p) \<and>
         returns (update delta keyMap yaw p) = (avatar p \<noteq> None) \<and>
         map_option advanced (animationController (state_of (update delta keyMap yaw p))) =
           map_option (\<lambda>ac. if model ac = None then advanced ac else advanced ac @ [delta])
             (animationController p) \<and>
         linvel (body (reset q)) = Vector3 0 0 0 \<and>
         translation (body (reset q)) = Vector3 0 1 0 \<and>
         uiResets (reset q) = uiResets q + 1"
proof -
  obtain c where c: "colliders (body p) = [c]"
    using reachable_one_collider[of es pos] assms(2) by auto
  let ?m = "update_movement delta keyMap p"
  let ?q = "state_of ?m"
  let ?b = "update_bounds (update_impulse yaw ?q)"
  let ?f = "update_follow delta ?b"
  let ?o = "update_orientation delta ?f"
  have rm: "returns ?m" using c by (simp add: movement_returns)
  have low: "v_y (translation (body (update_impulse yaw ?q))) < - 3"
    using assms(1) by (simp add: impulse_fields movement_fields)
  have b: "?b = reset (update_impulse yaw ?q)"
    using low by (simp add: update_bounds_def)
  have st: "state_of (update delta keyMap yaw p) =
              (if returns ?o then update_animation delta (state_of ?o) else state_of ?o)"
    using rm by (simp add: update_state' Let_def)
  have av: "avatar ?f =
              map_option (\<lambda>m. m\<lparr>position := Vector3_lerp (position m) (Vector3 0 1 0) (delta * 20)\<rparr>)
                (avatar p)"
    by (simp add: avatar_follow b reset_fields avatar_reset avatar_impulse avatar_movement)
  have ro: "returns ?o = (avatar p \<noteq> None)"
    by (simp add: orientation_returns av)
  have ru: "returns (update delta keyMap yaw p) = (avatar p \<noteq> None)"
    using c by (simp add: update_returns)
  have 1: "uiResets (state_of (update delta keyMap yaw p)) = uiResets p + 1"
    by (simp add: st animation_fields orientation_fields follow_fields b reset_fields
        impulse_fields movement_fields)
  have 2: "body (state_of (update delta keyMap yaw p)) = body ?b"
    by (simp add: st animation_fields orientation_fields follow_fields)
  have 3: "followTarget (state_of (update delta keyMap yaw p)) = Vector3 0 1 0"
    by (simp add: st animation_fields orientation_fields follow_fields b reset_fields)
  have 4: "pivot (state_of (update delta keyMap yaw p)) =
             Vector3_lerp (pivot p) (Vector3 0 1 0) (delta * 10)"
    by (simp add: st animation_fields orientation_fields follow_fields b reset_fields
        impulse_fields movement_fields)
  have 5: "map_option position (avatar (state_of (update delta keyMap yaw p))) =
             map_option (\<lambda>m. Vector3_lerp (position m) (Vector3 0 1 0) (delta * 20)) (avatar p)"
    by (simp add: st avatar_animation avatar_orientation_position av option.map_comp comp_def)
  have ac: "animationController (update_impulse yaw ?q) = animationController p"
    by (simp add: impulse_fields movement_fields)
  have 6: "map_option advanced (animationController (state_of (update delta keyMap yaw p))) =
             map_option (\<lambda>ac. if model ac = None then advanced ac else advanced ac @ [delta])
               (animationController p)"
  proof -
    have o: "map_option advanced (animationController (state_of ?o)) =
               map_option advanced (animationController p)"
      by (simp add: controller_orientation controller_follow b reset_fields ac)
    have "map_option advanced (animationController (state_of (update delta keyMap yaw p))) =
            (if avatar p \<noteq> None
             then map_option (\<lambda>l. l @ [delta]) (map_option advanced (animationController p))
             else map_option advanced (animationController p))"
      by (simp add: st ro controller_animation o)
    then show ?thesis
      by (cases "animationController p") (auto simp add: avatar_def)
  qed
  show ?thesis
    using 1 3 4 5 6 ru by (simp add: 2 b reset_fields)
qed


text \<open>
  The theorem at a controller that is ready, has landed and has then been moved by the
  physics world to the height \<open>- 4\<close>.
\<close>

theorem C5_out_of_bounds_reset_witness:
  "v_y (translation (body (run [InitStart, InitReady, SetGrounded True, Step (Vector3 0 (- 4) 0) (Vector3 0 (- 9) 0)]
                             (constructor (Vector3 0 0 0))))) < - 3 \<and>
   uiResets (run [InitStart, InitReady, SetGrounded True, Step (Vector3 0 (- 4) 0) (Vector3 0 (- 9) 0)]
               (constructor (Vector3 0 0 0))) = 0 \<and>
   uiResets (state_of (update 0.016 (held []) 0
      (run [InitStart, InitReady, SetGrounded True, Step (Vector3 0 (- 4) 0) (Vector3 0 (- 9) 0)]
         (constructor (Vector3 0 0 0))))) = 1 \<and>
   linvel (body (state_of (update 0.016 (held []) 0
      (run [InitStart, InitReady, SetGrounded True, Step (Vector3 0 (- 4) 0) (Vector3 0 (- 9) 0)]
         (constructor (Vector3 0 0 0)))))) = Vector3 0 0 0 \<and>
   translation (body (state_of (update 0.016 (held []) 0
      (run [InitStart, InitReady, SetGrounded True, Step (Vector3 0 (- 4) 0) (Vector3 0 (- 9) 0)]
         (constructor (Vector3 0 0 0)))))) = Vector3 0 1 0 \<and>
   followTarget (state_of (update 0.016 (held []) 0
      (run [InitStart, InitReady, SetGrounded True, Step (Vector3 0 (- 4) 0) (Vector3 0 (- 9) 0)]
         (constructor (Vector3 0 0 0))))) = Vector3 0 1 0 \<and>
   returns (update 0.016 (held []) 0
      (run [InitStart, InitReady, SetGrounded True, Step (Vector3 0 (- 4) 0) (Vector3 0 (- 9) 0)]
         (constructor (Vector3 0 0 0))))"
proof -
  let ?es = "[InitStart, InitReady, SetGrounded True, Step (Vector3 0 (- 4) 0) (Vector3 0 (- 9) 0)]"
  let ?p = "run ?es (constructor (Vector3 0 0 0))"
  have h: "v_y (translation (body ?p)) < - 3" by simp
  have u: "uiResets ?p = 0"
    by (simp add: setGrounded_fields init_fields constructor_def)
  have a: "avatar ?p \<noteq> None"
    by (simp add: avatar_def setGrounded_fields) (simp add: init_start_def init_ready_def)
  have t: "uiResets (state_of (update 0.016 (held []) 0 ?p)) = uiResets ?p + 1 \<and>
           linvel (body (state_of (update 0.016 (held []) 0 ?p))) = Vector3 0 0 0 \<and>
           translation (body (state_of (update 0.016 (held []) 0 ?p))) = Vector3 0 1 0 \<and>
           followTarget (state_of (update 0.016 (held []) 0 ?p)) = Vector3 0 1 0 \<and>
           returns (update 0.016 (held []) 0 ?p) = (avatar ?p \<noteq> None)"
    using h C5_out_of_bounds_reset[where p = ?p and es = ?es and pos = "Vector3 0 0 0"
        and delta = "0.016" and keyMap = "held []" and yaw = 0]
    by blast
  show ?thesis
    using h u a t by simp
qed

section \<open>The jump and its cooldown\<close>

lemma now_run_mono: "now p \<le> now (run es p)"
proof (induction es arbitrary: p)
  case Nil
  then show ?case by simp
next
  case (Cons e es)
  have "now p \<le> now (exec e p)"
    by (cases e) (simp_all add: exec_now del: exec.simps)
  also have "\<dots> \<le> now (run es (exec e p))" by (rule Cons.IH)
  finally show ?case by simp
qed

text \<open>
  While the clock has not reached \<open>T\<close>, a cooldown that is active stays active when no
  pending timer is due before \<open>T\<close> and every new timer is due at \<open>T\<close> or later.
\<close>

lemma cooldown_holds:
  assumes "wait p" and "\<forall>t\<in>set (timers p). T \<le> t" and "T \<le> now p + 250"
    and "now (run es p) < T"
  shows "wait (run es p)"
  using assms
proof (induction es arbitrary: p)
  case Nil
  then show ?case by simp
next
  case (Cons e es)
  have n: "now (exec e p) < T"
    using now_run_mono[of "exec e p" es] Cons.prems(4) by simp
  have m: "now p \<le> now (exec e p)"
    by (cases e) (simp_all add: exec_now del: exec.simps)
  have w: "wait (exec e p)"
  proof (cases e)
    case (Elapse d)
    then have "now p + d < T" using n by (simp add: exec_now del: exec.simps)
    then have "filter (\<lambda>x. x \<le> now p + d) (timers p) = []"
      using Cons.prems(2) by (auto simp add: filter_empty_conv)
    then show ?thesis using Elapse Cons.prems(1) by (simp add: exec_wait del: exec.simps)
  qed (insert Cons.prems(1), simp_all add: exec_wait del: exec.simps)
  have t: "\<forall>t\<in>set (timers (exec e p)). T \<le> t"
    using Cons.prems(2) Cons.prems(3)
    by (cases e) (auto simp add: exec_timers simp del: exec.simps)
  have "wait (run es (exec e p))"
    using Cons.IH[OF w t] m Cons.prems(3) Cons.prems(4) by simp
  then show ?case by simp
qed


text \<open>
  Claim C4, amended. A call of \<open>update\<close> jumps, that is, gives the impulse the vertical
  component 5 and replaces the collider by the crouch-jump capsule, exactly when the
  controller is grounded, the cooldown flag is off and the jump key is held; in every
  other call the vertical component of the impulse is 0 and the colliders stay. After
  a jump at a moment when no timer of an earlier landing is pending that is due less
  than 250 ms later, every call of \<open>update\<close> that follows any events and happens less
  than 250 ms after the jump has the vertical component 0.
\<close>

theorem C4_jump_gate:
  "v_y (inputVelocity (state_of (update delta keyMap yaw p))) = (if jumps keyMap p then 5 else 0) \<and>
   colliders (body (state_of (update delta keyMap yaw p))) =
     (if jumps keyMap p then
        (case colliders (body p) of [] \<Rightarrow> []
         | c # cs \<Rightarrow> cs @ [ColliderDesc_capsule jumpCapsuleHeight jumpCapsuleTranslation 0.5])
      else colliders (body p)) \<and>
   (jumps keyMap p \<and> (\<forall>t\<in>set (timers p). now p + 250 \<le> t) \<and>
    now (run es (state_of (update delta keyMap yaw p))) < now p + 250 \<longrightarrow>
      v_y (inputVelocity
             (state_of (update delta' keyMap' yaw' (run es (state_of (update delta keyMap yaw p)))))) = 0)"
proof -
  let ?q = "state_of (update delta keyMap yaw p)"
  have c: "v_y (inputVelocity (state_of (update delta' keyMap' yaw' (run es ?q)))) = 0"
    if j: "jumps keyMap p" and t: "\<forall>t\<in>set (timers p). now p + 250 \<le> t"
      and n: "now (run es ?q) < now p + 250"
  proof -
    have w: "wait ?q" using j by (simp add: update_wait jumps_def)
    have t': "\<forall>t\<in>set (timers ?q). now p + 250 \<le> t" using t by (simp add: update_fields)
    have n': "now p + 250 \<le> now ?q + 250" by (simp add: update_fields)
    have "wait (run es ?q)" using w t' n' n by (rule cooldown_holds)
    then show ?thesis by (simp add: update_inputVelocity_y jumps_def)
  qed
  show ?thesis
    using c by (simp add: update_inputVelocity_y update_colliders jumps_def)
qed

text \<open>
  The theorem at a controller that landed a second ago: the timer of the landing has
  fired, the controller jumps, leaves the ground and lands again 100 ms later; the jump
  attempted then contributes nothing.
\<close>

theorem C4_jump_gate_witness:
  "jumps (held [''Space'']) (run [InitStart, InitReady, SetGrounded True, Elapse 1000] (constructor (Vector3 0 0 0))) \<and>
   timers (run [InitStart, InitReady, SetGrounded True, Elapse 1000] (constructor (Vector3 0 0 0))) = [] \<and>
   now (run [InitStart, InitReady, SetGrounded True, Elapse 1000] (constructor (Vector3 0 0 0))) = 1000 \<and>
   now (run [SetGrounded False, Elapse 100, SetGrounded True]
          (state_of (update 0.016 (held [''Space'']) 0
             (run [InitStart, InitReady, SetGrounded True, Elapse 1000] (constructor (Vector3 0 0 0)))))) = 1100 \<and>
   v_y (inputVelocity (state_of (update 0.016 (held [''Space'']) 0
          (run [InitStart, InitReady, SetGrounded True, Elapse 1000] (constructor (Vector3 0 0 0)))))) = 5 \<and>
   v_y (inputVelocity (state_of (update 0.016 (held [''Space'']) 0
          (run [SetGrounded False, Elapse 100, SetGrounded True]
             (state_of (update 0.016 (held [''Space'']) 0
                (run [InitStart, InitReady, SetGrounded True, Elapse 1000] (constructor (Vector3 0 0 0)))))))))
     = 0"
proof -
  let ?p = "run [InitStart, InitReady, SetGrounded True, Elapse 1000] (constructor (Vector3 0 0 0))"
  let ?k = "held [''Space'']"
  let ?es = "[SetGrounded False, Elapse 100, SetGrounded True]"
  let ?q = "state_of (update 0.016 ?k 0 ?p)"
  have j: "jumps ?k ?p"
    by (simp add: jumps_def exec_view constructor_view held_def del: exec.simps)
  have t: "timers ?p = []"
    by (simp add: exec_view constructor_view del: exec.simps)
  have n: "now ?p = 1000"
    by (simp add: exec_view constructor_view del: exec.simps)
  have n': "now (run ?es ?q) = 1100"
    by (simp add: exec_view update_fields constructor_view del: exec.simps)
  have b: "\<forall>t\<in>set (timers ?p). now ?p + 250 \<le> t" using t by simp
  have l: "now (run ?es ?q) < now ?p + 250" using n n' by simp
  have c: "v_y (inputVelocity ?q) = 5 \<and>
           v_y (inputVelocity (state_of (update 0.016 ?k 0 (run ?es ?q)))) = 0"
    using j b l
      C4_jump_gate[where p = ?p and keyMap = ?k and delta = "0.016" and yaw = 0 and es = ?es
        and delta' = "0.016" and keyMap' = ?k and yaw' = 0]
    by simp
  show ?thesis using j t n n' c by blast
qed

text \<open>
  Claim C4, as stated, lets no jump attempt within 250 ms of a successful jump
  contribute a vertical component. The controller lands at time 0, which schedules the
  clearing of the flag for time 250, and jumps at time 200. It leaves the ground, the
  timer of the first landing fires at time 250, and the controller touches ground
  again; the jump attempted at time 260, 60 ms after the first jump, succeeds.
\<close>

theorem C4_second_jump_counterexample:
  "jumps (held [''Space'']) (run [InitStart, InitReady, SetGrounded True, Elapse 200] (constructor (Vector3 0 0 0))) \<and>
   now (run [InitStart, InitReady, SetGrounded True, Elapse 200] (constructor (Vector3 0 0 0))) = 200 \<and>
   now (run [InitStart, InitReady, SetGrounded True, Elapse 200, Update 0.016 (held [''Space'']) 0,
             SetGrounded False, Elapse 50, SetGrounded True, Elapse 10]
          (constructor (Vector3 0 0 0))) = 260 \<and>
   v_y (inputVelocity
          (state_of (update 0.016 (held [''Space'']) 0
             (run [InitStart, InitReady, SetGrounded True, Elapse 200, Update 0.016 (held [''Space'']) 0,
                   SetGrounded False, Elapse 50, SetGrounded True, Elapse 10]
                (constructor (Vector3 0 0 0)))))) = 5"
  by (simp add: update_inputVelocity_y jumps_def exec_view constructor_view held_def
      del: exec.simps)


lemma exec_update_y:
  "v_y (inputVelocity (exec (Update delta keyMap yaw) p)) = (if jumps keyMap p then 5 else 0)"
  by (simp add: update_inputVelocity_y)

text \<open>
  Claim C10, amended. \<open>setGrounded\<close> never changes the cooldown flag; on a transition
  from airborne to grounded it schedules the clearing of the flag for 250 ms later, and
  on no other call it schedules anything. The flag is on after a call of \<open>update\<close>
  exactly when it was on before or the call jumps, a timer that fires only clears it,
  and an event after which the flag is on while it was off before is a call of
  \<open>update\<close> that jumps. So when the controller is airborne and lands, the call of
  \<open>update\<close> right after the landing jumps exactly when the jump key is held and the flag
  is off at the landing: the vertical component of its impulse is then 5, with no
  cooldown window. When the flag is still on from an earlier jump, the vertical
  component is 0, whether the airborne episode began with a jump or not.
\<close>

theorem C10_cooldown_set_only_by_jump:
  "wait (state_of (setGrounded g p)) = wait p \<and>
   timers (state_of (setGrounded g p)) =
     (if g \<and> \<not> grounded p then timers p @ [now p + 250] else timers p) \<and>
   wait (state_of (update delta keyMap yaw p)) = (wait p \<or> jumps keyMap p) \<and>
   wait (elapse d p) = (wait p \<and> filter (\<lambda>t. t \<le> now p + d) (timers p) = []) \<and>
   (\<not> wait q \<and> wait (exec e q) \<longrightarrow>
      (\<exists>delta' keyMap' yaw'. e = Update delta' keyMap' yaw' \<and> jumps keyMap' q)) \<and>
   (\<not> grounded p \<longrightarrow>
      jumps keyMap (state_of (setGrounded True p)) = (\<not> wait p \<and> keyMap ''Space'') \<and>
      v_y (inputVelocity (state_of (update delta keyMap yaw (state_of (setGrounded True p))))) =
        (if \<not> wait p \<and> keyMap ''Space'' then 5 else 0))"
proof -
  have 1: "wait (state_of (update delta keyMap yaw p)) = (wait p \<or> jumps keyMap p)"
    by (auto simp add: update_wait jumps_def)
  have 2: "wait (elapse d p) = (wait p \<and> filter (\<lambda>t. t \<le> now p + d) (timers p) = [])"
    using exec_wait[of "Elapse d" p] by simp
  have 3: "\<exists>delta' keyMap' yaw'. e = Update delta' keyMap' yaw' \<and> jumps keyMap' q"
    if "\<not> wait q" and "wait (exec e q)"
    using that by (cases e) (auto simp add: exec_wait jumps_def simp del: exec.simps)
  have 4: "jumps keyMap (state_of (setGrounded True p)) = (\<not> wait p \<and> keyMap ''Space'')"
    by (simp add: jumps_def setGrounded_fields)
  have 5: "v_y (inputVelocity (state_of (update delta keyMap yaw (state_of (setGrounded True p))))) =
             (if \<not> wait p \<and> keyMap ''Space'' then 5 else 0)"
    by (simp add: update_inputVelocity_y 4)
  show ?thesis
    using 1 2 3 4 5 by (simp add: setGrounded_fields setGrounded_timers)
qed

text \<open>
  The theorem at two controllers that walk off an edge and land again with the jump
  key held. The first has never jumped: the call of \<open>update\<close> right after the landing
  jumps. The second has jumped at 1000 ms, landed at 1700 ms and walked off the edge at
  1800 ms: at its landing at 1900 ms the flag is still on, and the call does not jump.
\<close>

theorem C10_cooldown_set_only_by_jump_witness:
  "\<not> grounded (run [InitStart, InitReady, SetGrounded True, SetGrounded False]
                  (constructor (Vector3 0 0 0))) \<and>
   \<not> wait (run [InitStart, InitReady, SetGrounded True, SetGrounded False]
              (constructor (Vector3 0 0 0))) \<and>
   held [''Space''] ''Space'' \<and>
   \<not> wait (state_of (setGrounded True
             (run [InitStart, InitReady, SetGrounded True, SetGrounded False]
                (constructor (Vector3 0 0 0))))) \<and>
   wait (exec (Update 0.016 (held [''Space'']) 0)
           (state_of (setGrounded True
              (run [InitStart, InitReady, SetGrounded True, SetGrounded False]
                 (constructor (Vector3 0 0 0)))))) \<and>
   v_y (inputVelocity (state_of (update 0.016 (held [''Space'']) 0
          (state_of (setGrounded True
             (run [InitStart, InitReady, SetGrounded True, SetGrounded False]
                (constructor (Vector3 0 0 0)))))))) = 5 \<and>
   \<not> grounded (run [InitStart, InitReady, SetGrounded True, Elapse 1000,
                     Update 0.016 (held [''Space'']) 0, SetGrounded False, Elapse 700,
                     SetGrounded True, Elapse 100, Update 0.016 (held []) 0,
                     SetGrounded False, Elapse 100] (constructor (Vector3 0 0 0))) \<and>
   wait (run [InitStart, InitReady, SetGrounded True, Elapse 1000,
              Update 0.016 (held [''Space'']) 0, SetGrounded False, Elapse 700,
              SetGrounded True, Elapse 100, Update 0.016 (held []) 0,
              SetGrounded False, Elapse 100] (constructor (Vector3 0 0 0))) \<and>
   v_y (inputVelocity (state_of (update 0.016 (held [''Space'']) 0
          (state_of (setGrounded True
             (run [InitStart, InitReady, SetGrounded True, Elapse 1000,
                   Update 0.016 (held [''Space'']) 0, SetGrounded False, Elapse 700,
                   SetGrounded True, Elapse 100, Update 0.016 (held []) 0,
                   SetGrounded False, Elapse 100] (constructor (Vector3 0 0 0)))))))) = 0"
proof -
  let ?p = "run [InitStart, InitReady, SetGrounded True, SetGrounded False] (constructor (Vector3 0 0 0))"
  let ?r = "run [InitStart, InitReady, SetGrounded True, Elapse 1000,
                 Update 0.016 (held [''Space'']) 0, SetGrounded False, Elapse 700,
                 SetGrounded True, Elapse 100, Update 0.016 (held []) 0,
                 SetGrounded False, Elapse 100] (constructor (Vector3 0 0 0))"
  let ?k = "held [''Space'']"
  let ?q = "state_of (setGrounded True ?p)"
  have g: "\<not> grounded ?p"
    by (simp add: exec_view del: exec.simps)
  have w: "\<not> wait ?p"
    by (simp add: exec_view constructor_view del: exec.simps)
  have k: "?k ''Space''" by (simp add: held_def)
  have w': "\<not> wait ?q"
    using w by (simp add: setGrounded_fields del: run.simps)
  have j: "wait (exec (Update 0.016 ?k 0) ?q)"
    using k by (simp add: exec_wait setGrounded_fields del: exec.simps)
  have c: "v_y (inputVelocity (state_of (update 0.016 ?k 0 ?q))) = 5"
    using g w k
      C10_cooldown_set_only_by_jump[where p = ?p and keyMap = ?k and delta = "0.016" and yaw = 0]
    by simp
  have g2: "\<not> grounded ?r"
    by (simp add: exec_view del: exec.simps)
  have w2: "wait ?r"
    by (simp add: exec_view constructor_view held_def del: exec.simps)
  have c2: "v_y (inputVelocity (state_of (update 0.016 ?k 0 (state_of (setGrounded True ?r))))) = 0"
    using g2 w2
      C10_cooldown_set_only_by_jump[where p = ?r and keyMap = ?k and delta = "0.016" and yaw = 0]
    by simp
  show ?thesis using g w k w' j c g2 w2 c2 by blast
qed

text \<open>
  Claim C10, as stated, permits a jump right after the landing from any airborne
  episode that did not begin with a jump. The controller jumps at 1000 ms and lands at
  1700 ms, which schedules the clearing of the flag for 1950 ms. It is updated at 1800
  ms with no key held, walks off an edge, and lands at 1900 ms: the flag is still on,
  and the call of \<open>update\<close> with the jump key held has the vertical component 0.
\<close>

theorem C10_walk_off_counterexample:
  "v_y (inputVelocity
          (run [InitStart, InitReady, SetGrounded True, Elapse 1000,
                Update 0.016 (held [''Space'']) 0, SetGrounded False, Elapse 700,
                SetGrounded True, Elapse 100, Update 0.016 (held []) 0]
             (constructor (Vector3 0 0 0)))) = 0 \<and>
   grounded
     (run [InitStart, InitReady, SetGrounded True, Elapse 1000,
           Update 0.016 (held [''Space'']) 0, SetGrounded False, Elapse 700,
           SetGrounded True, Elapse 100, Update 0.016 (held []) 0,
           SetGrounded False, Elapse 100, SetGrounded True] (constructor (Vector3 0 0 0))) \<and>
   now
     (run [InitStart, InitReady, SetGrounded True, Elapse 1000,
           Update 0.016 (held [''Space'']) 0, SetGrounded False, Elapse 700,
           SetGrounded True, Elapse 100, Update 0.016 (held []) 0,
           SetGrounded False, Elapse 100, SetGrounded True] (constructor (Vector3 0 0 0))) = 1900 \<and>
   wait
     (run [InitStart, InitReady, SetGrounded True, Elapse 1000,
           Update 0.016 (held [''Space'']) 0, SetGrounded False, Elapse 700,
           SetGrounded True, Elapse 100, Update 0.016 (held []) 0,
           SetGrounded False, Elapse 100, SetGrounded True] (constructor (Vector3 0 0 0))) \<and>
   held [''Space''] ''Space'' \<and>
   v_y (inputVelocity
          (state_of (update 0.016 (held [''Space'']) 0
             (run [InitStart, InitReady, SetGrounded True, Elapse 1000,
                   Update 0.016 (held [''Space'']) 0, SetGrounded False, Elapse 700,
                   SetGrounded True, Elapse 100, Update 0.016 (held []) 0,
                   SetGrounded False, Elapse 100, SetGrounded True]
                (constructor (Vector3 0 0 0)))))) = 0"
  by (simp add: update_inputVelocity_y exec_update_y jumps_def exec_view constructor_view held_def
      del: exec.simps)

section \<open>The orientation of the avatar\<close>
















section \<open>The orientation step on an example\<close>

text \<open>
  The branch that rotates the avatar is taken: the controller is ready and has landed,
  the physics world has moved the body to (1, 0, 0), and a frame of 20 ms is updated.
  The avatar moves to (0.4, 0, 0), the target orientation is the quarter turn about the
  vertical axis, and the avatar is rotated towards it by at most 0.4 radians.
\<close>

lemma sqrt_example: "sqrt (9 / 25) = 3 / 5"
  by (rule real_sqrt_unique) (simp_all add: power2_eq_square)

lemma lookAt_example:
  "Matrix4_lookAt (Vector3 1 0 0) (Vector3 (2/5) 0 0) (Vector3 0 1 0)
     = Matrix4 (Vector3 0 0 (- 1)) (Vector3 0 1 0) (Vector3 1 0 0)"
  by (simp add: Matrix4_lookAt_def Let_def Vector3_subVectors_def Vector3_lengthSq_def
      Vector3_normalize_def Vector3_length_def Vector3_divideScalar_def Vector3_multiplyScalar_def
      Vector3_crossVectors_def sqrt_example)

lemma target_example:
  "Quaternion_setFromRotationMatrix (Matrix4 (Vector3 0 0 (- 1)) (Vector3 0 1 0) (Vector3 1 0 0))
     = Quaternion 0 (1 / sqrt 2) 0 (sqrt 2 / 2)"
  by (simp add: Quaternion_setFromRotationMatrix_def Let_def)

lemma orientation_example:
  assumes "avatar p = Some \<lparr>position = Vector3 (2/5) 0 0, quaternion = Quaternion 0 0 0 1, up = Vector3 0 1 0\<rparr>"
    and "followTarget p = Vector3 1 0 0"
  shows "targetQuaternion (state_of (update_orientation delta p)) = Quaternion 0 (sqrt 2 / 2) 0 (sqrt 2 / 2)"
proof -
  have d: "Vector3_distanceTo (Vector3 (2/5) 0 0) (Vector3 1 0 0) = 3 / 5"
    by (simp add: Vector3_distanceTo_def Vector3_subVectors_def Vector3_lengthSq_def sqrt_example)
  have n: "Quaternion_normalize (Quaternion 0 (1 / sqrt 2) 0 (sqrt 2 / 2)) = Quaternion 0 (sqrt 2 / 2) 0 (sqrt 2 / 2)"
    by (simp add: Quaternion_normalize_def Quaternion_length_def Let_def real_sqrt_divide real_div_sqrt)
  show ?thesis
    using assms
    by (simp add: update_orientation_def Let_def lookAt_example target_example d Quaternion_equals_def
        set_avatar_fields n)
qed


lemma rotate_branch_example:
  "targetQuaternion
     (run [InitStart, InitReady, SetGrounded True, Step (Vector3 1 0 0) (Vector3 0 0 0), Update (1 / 50) (held []) 0]
        (constructor (Vector3 0 0 0))) = Quaternion 0 (sqrt 2 / 2) 0 (sqrt 2 / 2) \<and>
   map_option quaternion
     (avatar
        (run [InitStart, InitReady, SetGrounded True, Step (Vector3 1 0 0) (Vector3 0 0 0), Update (1 / 50) (held []) 0]
           (constructor (Vector3 0 0 0)))) =
     Some (Quaternion_rotateTowards (Quaternion 0 0 0 1) (Quaternion 0 (sqrt 2 / 2) 0 (sqrt 2 / 2)) (2 / 5))"
proof -
  let ?s = "run [InitStart, InitReady, SetGrounded True, Step (Vector3 1 0 0) (Vector3 0 0 0)] (constructor (Vector3 0 0 0))"
  let ?q = "state_of (update_movement (1 / 50) (held []) ?s)"
  let ?b = "update_bounds (update_impulse 0 ?q)"
  let ?f = "update_follow (1 / 50) ?b"
  let ?o = "update_orientation (1 / 50) ?f"
  let ?m = "\<lparr>position = Vector3 (2 / 5) 0 0, quaternion = Quaternion 0 0 0 1, up = Vector3 0 1 0\<rparr>"
  have a: "avatar ?s = Some \<lparr>position = Vector3 0 0 0, quaternion = Quaternion 0 0 0 1, up = Vector3 0 1 0\<rparr>"
    by (simp add: avatar_def setGrounded_fields) (simp add: init_start_def init_ready_def)
  have t: "translation (body ?s) = Vector3 1 0 0" by simp
  have rm: "returns (update_movement (1 / 50) (held []) ?s)"
    by (simp add: movement_returns held_def del: run.simps)
  have b: "?b = update_impulse 0 ?q"
    using t by (simp add: update_bounds_def impulse_fields movement_fields del: run.simps)
  have tb: "translation (body ?b) = Vector3 1 0 0"
    using t by (simp add: b impulse_fields movement_fields del: run.simps)
  have af: "avatar ?f = Some ?m"
    using a by (simp add: avatar_follow tb avatar_bounds avatar_impulse avatar_movement
        Vector3_lerp_def del: run.simps)
  have ff: "followTarget ?f = Vector3 1 0 0"
    by (simp add: follow_fields tb del: run.simps)
  have d: "Vector3_distanceTo (Vector3 (2 / 5) 0 0) (Vector3 1 0 0) = 3 / 5"
    by (simp add: Vector3_distanceTo_def Vector3_subVectors_def Vector3_lengthSq_def sqrt_example)
  have n: "Quaternion_normalize (Quaternion 0 (1 / sqrt 2) 0 (sqrt 2 / 2)) =
             Quaternion 0 (sqrt 2 / 2) 0 (sqrt 2 / 2)"
    by (simp add: Quaternion_normalize_def Quaternion_length_def Let_def real_sqrt_divide real_div_sqrt)
  have c: "animationController ?f \<noteq> None" using af by (rule avatar_Some_controller)
  have o: "state_of ?o =
             set_avatar (?m\<lparr>quaternion := Quaternion_rotateTowards (Quaternion 0 0 0 1)
                                   (Quaternion 0 (sqrt 2 / 2) 0 (sqrt 2 / 2)) (2 / 5)\<rparr>)
               (?f\<lparr>targetQuaternion := Quaternion 0 (sqrt 2 / 2) 0 (sqrt 2 / 2)\<rparr>)"
    using af ff
    by (simp add: update_orientation_def Let_def lookAt_example target_example d
        Quaternion_equals_def n del: run.simps)
  have ro: "returns ?o" using af by (simp add: orientation_returns del: run.simps)
  have u: "run [InitStart, InitReady, SetGrounded True, Step (Vector3 1 0 0) (Vector3 0 0 0), Update (1 / 50) (held []) 0]
             (constructor (Vector3 0 0 0)) = update_animation (1 / 50) (state_of ?o)"
    using rm ro update_state'[of "1 / 50" "held []" 0 ?s] by (simp add: Let_def)
  have ta: "targetQuaternion (update_animation d x) = targetQuaternion x" for d x
    by (simp add: update_animation_def split: option.splits)
  show ?thesis
    unfolding u using c
    by (simp add: ta avatar_animation o set_avatar_fields avatar_set_avatar del: run.simps)
qed

section \<open>The mass of the body on an example\<close>

text \<open>
  The capsule attached at a landing adds its mass 0.5 to the mass 1 of the capsule of
  the spawn, which counts until the world steps. After the step the mass is 0.5; the
  capsule attached by a jump raises it to 1 for the impulse of the same call, so the
  jump changes the vertical velocity by 5.
\<close>

lemma update_body:
  assumes "returns (update_movement delta keyMap p)"
  shows "body (state_of (update delta keyMap yaw p)) =
           body (update_bounds (update_impulse yaw (state_of (update_movement delta keyMap p))))"
  using assms
  by (simp add: update_state' Let_def animation_fields orientation_fields follow_fields)

lemma movement_bodyMass:
  "bodyMass (body (state_of (update_movement delta keyMap p))) =
     (if jumps keyMap p \<and> colliders (body p) \<noteq> [] then bodyMass (body p) + 0.5
      else bodyMass (body p))"
  by (simp add: update_movement_def Let_def jumps_def updateCapsuleHeight_def removeCollider_def
      createCollider_def ColliderDesc_capsule_def split: prod.splits list.splits)

lemma mass_example:
  "bodyMass (body (run [InitStart, InitReady, SetGrounded True] (constructor (Vector3 0 0 0)))) = 3 / 2 \<and>
   bodyMass (body (run [InitStart, InitReady, SetGrounded True, Step (Vector3 0 0 0) (Vector3 0 0 0)]
                     (constructor (Vector3 0 0 0)))) = 1 / 2 \<and>
   v_y (linvel (body (run [InitStart, InitReady, SetGrounded True, Step (Vector3 0 0 0) (Vector3 0 0 0),
                           Update 0.016 (held [''Space'']) 0] (constructor (Vector3 0 0 0))))) = 5"
proof -
  let ?l = "state_of (setGrounded True (init_ready (init_start (constructor (Vector3 0 0 0)))))"
  let ?s = "?l\<lparr>body := world_step (Vector3 0 0 0) (Vector3 0 0 0) (body ?l)\<rparr>"
  let ?k = "held [''Space'']"
  let ?q = "state_of (update_movement 0.016 ?k ?s)"
  have bl: "body ?l =
              \<lparr>translation = Vector3 0 0 0, linvel = Vector3 0 0 0, linearDamping = 4,
               colliders = [ColliderDesc_capsule originalCapsuleHeight originalCapsuleTranslation 0.5],
               bodyMass = 3 / 2\<rparr>"
    by (simp add: setGrounded_def Let_def updateCapsuleHeight_def removeCollider_def
        createCollider_def init_start_def init_ready_def constructor_def ColliderDesc_capsule_def)
  have bs: "body ?s =
              \<lparr>translation = Vector3 0 0 0, linvel = Vector3 0 0 0, linearDamping = 4,
               colliders = [ColliderDesc_capsule originalCapsuleHeight originalCapsuleTranslation 0.5],
               bodyMass = 1 / 2\<rparr>"
    by (simp add: bl world_step_def ColliderDesc_capsule_def)
  have gs: "grounded ?s" "\<not> wait ?s"
    by (simp_all add: setGrounded_fields init_fields constructor_def)
  have j: "jumps ?k ?s" using gs by (simp add: jumps_def held_def)
  have cs: "colliders (body ?s) \<noteq> []" by (simp add: bs)
  have rm: "returns (update_movement 0.016 ?k ?s)"
    using cs by (simp only: movement_returns) simp
  have "bodyMass (body ?q) = bodyMass (body ?s) + 0.5"
    using j cs by (simp only: movement_bodyMass) simp
  then have mq: "bodyMass (body ?q) = 1" by (simp add: bs)
  have "linvel (body ?q) = linvel (body ?s)" "translation (body ?q) = translation (body ?s)"
    by (simp_all only: movement_fields)
  then have bq: "linvel (body ?q) = Vector3 0 0 0" "translation (body ?q) = Vector3 0 0 0"
    by (simp_all add: bs)
  have iq: "v_y (inputVelocity ?q) = 5"
    using j by (simp only: movement_inputVelocity_y) simp
  have "v_y (linvel (body (update_bounds (update_impulse 0 ?q)))) = 5"
    using mq bq iq
    by (simp add: update_bounds_def update_impulse_def applyImpulse_def Let_def
        applyQuaternion_yaw_y)
  then have "v_y (linvel (body (state_of (update 0.016 ?k 0 ?s)))) = 5"
    using update_body[OF rm] by simp
  then show ?thesis using bl bs by simp
qed

end
